theory Spec2Isabelle
  imports Complex_Main "HOL-Library.AList" "HOL-Library.Char_ord" "HOL-Library.List_Lexorder"
begin

section \<open>Values\<close>

text \<open>
  A price series is a Python \<open>Dict[str, float]\<close>: an insertion-ordered table with distinct
  keys. It is an association list here; \<open>d[k] = v\<close> is \<open>AList.update k v d\<close> (the value is
  replaced in place when the key is there, the pair is appended otherwise), \<open>d.get(k)\<close> is
  \<open>map_of d k\<close>, \<open>d.keys()\<close> is \<open>map fst d\<close> and the truth value of \<open>d\<close> is \<open>d \<noteq> []\<close>.
  Dates are the strings \<open>'%Y-%m-%d'\<close>, compared as Python compares \<open>str\<close>
  (lexicographically, character by character). Prices are Python floats, modelled as exact
  reals: rounding, infinities and NaN are outside the model.
\<close>

type_synonym date = string
type_synonym price = real
type_synonym series = "(date \<times> price) list"

datatype py_error =
    ZeroDivisionError
  | FileNotFoundError
  | JSONDecodeError
  | KeyError string
  | OtherError string

fun str_exc :: "py_error \<Rightarrow> string" where
  "str_exc ZeroDivisionError = ''float division by zero''"
| "str_exc FileNotFoundError = ''No such file or directory''"
| "str_exc JSONDecodeError = ''Expecting value''"
| "str_exc (KeyError k) = [CHR 0x27] @ k @ [CHR 0x27]"
| "str_exc (OtherError msg) = msg"

definition truthy_dict :: "series option \<Rightarrow> bool" where
  "truthy_dict d = (case d of None \<Rightarrow> False | Some xs \<Rightarrow> xs \<noteq> [])"

definition truthy_float :: "price option \<Rightarrow> bool" where
  "truthy_float p = (case p of None \<Rightarrow> False | Some v \<Rightarrow> v \<noteq> 0)"

text \<open>The slice \<open>xs[i:]\<close>: a negative start counts from the end, and both ends are clipped.\<close>

definition slice_from :: "'a list \<Rightarrow> int \<Rightarrow> 'a list" where
  "slice_from xs i =
     (let n = int (length xs);
          start = (if i < 0 then max (n + i) 0 else min i n)
      in drop (nat start) xs)"

text \<open>\<open>str(n)\<close> for an integer, as the f-string \<open>f"Status code: {response.status_code}"\<close> prints it.\<close>

fun str_nat :: "nat \<Rightarrow> string" where
  "str_nat n =
     (if n < 10 then [''0123456789'' ! n]
      else str_nat (n div 10) @ [''0123456789'' ! (n mod 10)])"

definition str_int :: "int \<Rightarrow> string" where
  "str_int i = (if i < 0 then CHR ''-'' # str_nat (nat (- i)) else str_nat (nat i))"

section \<open>The application object and its environment\<close>

datatype cache_storage =
    No_file
  | Unreadable py_error
  | Record "real option" "series option"

datatype write_outcome = Write_ok | Open_fails py_error | Dump_fails py_error

datatype 'a payload = Malformed py_error | Payload 'a

datatype 'a http = Transport_error py_error | Response int "'a payload"

datatype yf_result = Yf_raises py_error | Yf_frame "(date \<times> real) list"

datatype call = Cache_read | Cache_write | Nbp_get int | Yf_get int | Coingecko_get int

datatype status_text = Success | Failed string

datatype log_entry = Log_info string status_text | Log_error string

datatype label = Blank | Last_refreshed real | Error_fetching

record ratio_row =
  Date :: date
  Gold_Price_USD :: price
  Bitcoin_Price_USD :: price
  Ratio :: real

text \<open>
  The fields of \<open>PriceRatioApp\<close> that \<open>refresh_data\<close> reads and writes, followed by the
  environment it runs in.

  \<^item> \<open>tree\<close> holds the rows of the table widget, with the numbers before their formatting;
    \<open>messagebox\<close> collects the \<open>messagebox.showerror(title, message)\<close> dialogs.
  \<^item> \<open>clock\<close> is \<open>datetime.now().timestamp()\<close> in seconds, held fixed during one refresh;
    \<open>local_date t\<close> is \<open>datetime.fromtimestamp(t).strftime('%Y-%m-%d')\<close>.
  \<^item> \<open>utcoffset t\<close> is the offset of local time from UTC, in seconds, that the platform
    applies to the POSIX time \<open>t\<close> (it changes with daylight saving time), and
    \<open>localtime_ok t\<close> says whether \<open>datetime.fromtimestamp\<close> accepts \<open>t\<close>: outside the
    platform's range it raises.
  \<^item> \<open>cache_file\<close> is what \<open>gold_prices_cache.json\<close> holds: nothing, something that
    \<open>open\<close> or \<open>json.load\<close> rejects, or a JSON object whose \<open>'timestamp'\<close> and
    \<open>'prices'\<close> entries may each be missing. \<open>cache_write\<close> says what the next write does.
  \<^item> \<open>nbp_api days\<close>, \<open>yf_history now days\<close> and \<open>coingecko_api now days\<close> are the
    answers of the three providers to the request the code builds from \<open>days_to_show\<close> and
    the clock. A payload is \<open>Malformed\<close> when \<open>response.json()\<close> or the loop over it raises;
    the dictionary under construction is local, so nothing of it survives the exception.
  \<^item> \<open>calls\<close> is the trace of accesses to the cache file and the providers, and \<open>logged\<close>
    what \<open>logging\<close> wrote.
\<close>

record state =
  days_to_show :: int
  ratio_mode :: string
  current_data :: "ratio_row list"
  api_status :: "(string \<times> bool) list"
  tree :: "(date \<times> price \<times> price \<times> real) list"
  ratio_heading :: string
  refresh_label :: label
  messagebox :: "(string \<times> string) list"
  clock :: real
  local_date :: "real \<Rightarrow> date"
  utcoffset :: "real \<Rightarrow> real"
  localtime_ok :: "real \<Rightarrow> bool"
  cache_file :: cache_storage
  cache_write :: write_outcome
  nbp_api :: "int \<Rightarrow> (date \<times> real) list http"
  yf_history :: "real \<Rightarrow> int \<Rightarrow> yf_result"
  coingecko_api :: "real \<Rightarrow> int \<Rightarrow> (real \<times> price) list http"
  calls :: "call list"
  logged :: "log_entry list"

text \<open>
  A method either returns a value or raises, and leaves a state behind in both cases.
\<close>

type_synonym 'a m = "state \<Rightarrow> (py_error + 'a) \<times> state"

definition ok :: "'a \<Rightarrow> 'a m" where
  "ok v s = (Inr v, s)"

definition raise :: "py_error \<Rightarrow> 'a m" where
  "raise e s = (Inl e, s)"

definition then_do :: "'a m \<Rightarrow> ('a \<Rightarrow> 'b m) \<Rightarrow> 'b m" where
  "then_do f g s = (case f s of (Inl e, s') \<Rightarrow> (Inl e, s') | (Inr v, s') \<Rightarrow> g v s')"

definition try_except :: "'a m \<Rightarrow> (py_error \<Rightarrow> 'a m) \<Rightarrow> 'a m" where
  "try_except body handler s =
     (case body s of (Inl e, s') \<Rightarrow> handler e s' | (Inr v, s') \<Rightarrow> (Inr v, s'))"

definition logging_error :: "string \<Rightarrow> unit m" where
  "logging_error msg s = (Inr (), s\<lparr>logged := logged s @ [Log_error msg]\<rparr>)"

definition showerror :: "string \<Rightarrow> string \<Rightarrow> unit m" where
  "showerror title msg s = (Inr (), s\<lparr>messagebox := messagebox s @ [(title, msg)]\<rparr>)"

section \<open>The methods\<close>

text \<open>
  \<open>update_api_status\<close> records the status in the dictionary \<open>api_status\<close> and logs the
  status text. The label widget it also repaints (one label for each of the three names,
  created before the first refresh) is presentation and is left out.
\<close>

definition update_api_status :: "string \<Rightarrow> bool \<Rightarrow> string \<Rightarrow> unit m" where
  "update_api_status api_name status message s =
     (let status_text = (if status then Success else Failed message)
      in (Inr (), s\<lparr>api_status := AList.update api_name status (api_status s),
                     logged := logged s @ [Log_info api_name status_text]\<rparr>))"

subsection \<open>Naive local datetimes\<close>

text \<open>
  \<open>datetime.now()\<close> and \<open>datetime.fromtimestamp(t)\<close> are naive datetimes: readings of the
  local wall clock, without their offset. A reading is modelled as the number of seconds it
  shows since the epoch of the wall clock, so that the difference of two datetimes, a
  \<open>timedelta\<close>, is the difference of the two numbers. \<open>fromtimestamp\<close> rounds its argument
  to the nearest microsecond, ties to even, and raises when the platform cannot convert it.
\<close>

definition round_half_even :: "real \<Rightarrow> int" where
  "round_half_even x =
     (let f = \<lfloor>x\<rfloor>; r = x - of_int f
      in if r < 1 / 2 then f else if 1 / 2 < r then f + 1 else if even f then f else f + 1)"

definition round_us :: "real \<Rightarrow> real" where
  "round_us t = of_int (round_half_even (t * 1000000)) / 1000000"

definition datetime_fromtimestamp :: "state \<Rightarrow> real \<Rightarrow> py_error + real" where
  "datetime_fromtimestamp s t =
     (if localtime_ok s t then Inr (round_us t + utcoffset s t)
      else Inl (OtherError ''timestamp out of range for platform time_t''))"

definition datetime_now :: "state \<Rightarrow> real" where
  "datetime_now s = round_us (clock s) + utcoffset s (clock s)"

subsection \<open>Cache\<close>

definition cache_prices_try :: "series \<Rightarrow> unit m" where
  "cache_prices_try prices s =
     (let s' = s\<lparr>calls := calls s @ [Cache_write]\<rparr>
      in case cache_write s of
           Write_ok \<Rightarrow> (Inr (), s'\<lparr>cache_file := Record (Some (clock s)) (Some prices)\<rparr>)
         | Open_fails e \<Rightarrow> (Inl e, s')
         | Dump_fails e \<Rightarrow> (Inl e, s'\<lparr>cache_file := Unreadable JSONDecodeError\<rparr>))"

definition cache_prices :: "series \<Rightarrow> unit m" where
  "cache_prices prices =
     try_except (cache_prices_try prices)
       (\<lambda>e. logging_error (''Error caching prices: '' @ str_exc e))"

definition load_cached_prices_try :: "series option m" where
  "load_cached_prices_try s =
     (let s' = s\<lparr>calls := calls s @ [Cache_read]\<rparr>
      in case cache_file s of
           No_file \<Rightarrow> (Inl FileNotFoundError, s')
         | Unreadable e \<Rightarrow> (Inl e, s')
         | Record ts ps \<Rightarrow>
             (case ts of
                None \<Rightarrow> (Inl (KeyError ''timestamp''), s')
              | Some timestamp \<Rightarrow>
                  (case datetime_fromtimestamp s timestamp of
                     Inl e \<Rightarrow> (Inl e, s')
                   | Inr cache_time \<Rightarrow>
                       if datetime_now s - cache_time < 3600 then
                         (case ps of
                            None \<Rightarrow> (Inl (KeyError ''prices''), s')
                          | Some prices \<Rightarrow> (Inr (Some prices), s'))
                       else (Inr None, s'))))"

definition load_cached_prices :: "series option m" where
  "load_cached_prices = try_except load_cached_prices_try (\<lambda>e. ok None)"

subsection \<open>Gold: cache, then NBP, then yfinance\<close>

definition yf_prices :: "(date \<times> real) list \<Rightarrow> series" where
  "yf_prices df = fold (\<lambda>(date_str, close) prices. AList.update date_str (close * 10) prices) df []"

definition get_gold_prices_yfinance :: "series option m" where
  "get_gold_prices_yfinance =
     try_except
       (\<lambda>s. let s' = s\<lparr>calls := calls s @ [Yf_get (days_to_show s)]\<rparr>
            in case yf_history s (clock s) (days_to_show s) of
                 Yf_raises e \<Rightarrow> (Inl e, s')
               | Yf_frame df \<Rightarrow>
                   then_do (update_api_status ''YFinance'' True [])
                     (\<lambda>_. ok (Some (yf_prices df))) s')
       (\<lambda>e. then_do (logging_error (''Error fetching YFinance gold prices: '' @ str_exc e))
              (\<lambda>_. then_do (update_api_status ''YFinance'' False (str_exc e))
              (\<lambda>_. ok None)))"

definition nbp_prices :: "(date \<times> real) list \<Rightarrow> series" where
  "nbp_prices data =
     fold (\<lambda>(date, price_pln_per_gram) prices.
             AList.update date (price_pln_per_gram * 31.1034768 * 0.25) prices) data []"

definition requests_get_nbp :: "(int \<times> (date \<times> real) list payload) m" where
  "requests_get_nbp s =
     (let s' = s\<lparr>calls := calls s @ [Nbp_get (days_to_show s)]\<rparr>
      in case nbp_api s (days_to_show s) of
           Transport_error e \<Rightarrow> (Inl e, s')
         | Response status_code body \<Rightarrow> (Inr (status_code, body), s'))"

definition get_gold_prices_historical :: "series option m" where
  "get_gold_prices_historical =
     try_except
       (then_do load_cached_prices (\<lambda>cached_prices.
          if truthy_dict cached_prices then
            then_do (update_api_status ''NBP'' True ''Using cached data'')
              (\<lambda>_. ok cached_prices)
          else
            then_do requests_get_nbp (\<lambda>(status_code, body).
              if status_code = 200 then
                (case body of
                   Malformed e \<Rightarrow> raise e
                 | Payload data \<Rightarrow>
                     then_do (cache_prices (nbp_prices data))
                       (\<lambda>_. then_do (update_api_status ''NBP'' True [])
                       (\<lambda>_. ok (Some (nbp_prices data)))))
              else
                then_do (update_api_status ''NBP'' False (''Status code: '' @ str_int status_code))
                  (\<lambda>_. get_gold_prices_yfinance))))
       (\<lambda>e. then_do (logging_error (''Error fetching NBP gold prices: '' @ str_exc e))
              (\<lambda>_. then_do (update_api_status ''NBP'' False (str_exc e))
              (\<lambda>_. get_gold_prices_yfinance)))"

subsection \<open>Bitcoin: CoinGecko\<close>

text \<open>The body of the loop over \<open>data['prices']\<close>, then the loop.\<close>

definition cg_step :: "(real \<Rightarrow> date) \<Rightarrow> real \<times> price \<Rightarrow> series \<Rightarrow> series" where
  "cg_step fromtimestamp =
     (\<lambda>(timestamp, price) prices.
        let date = fromtimestamp (timestamp / 1000)
        in if date \<notin> set (map fst prices) then AList.update date price prices else prices)"

definition cg_prices :: "(real \<Rightarrow> date) \<Rightarrow> (real \<times> price) list \<Rightarrow> series" where
  "cg_prices fromtimestamp data = fold (cg_step fromtimestamp) data []"

definition requests_get_coingecko :: "(int \<times> (real \<times> price) list payload) m" where
  "requests_get_coingecko s =
     (let s' = s\<lparr>calls := calls s @ [Coingecko_get (days_to_show s)]\<rparr>
      in case coingecko_api s (clock s) (days_to_show s) of
           Transport_error e \<Rightarrow> (Inl e, s')
         | Response status_code body \<Rightarrow> (Inr (status_code, body), s'))"

definition get_bitcoin_prices_historical :: "series option m" where
  "get_bitcoin_prices_historical =
     try_except
       (then_do requests_get_coingecko (\<lambda>(status_code, body).
          if status_code = 200 then
            (case body of
               Malformed e \<Rightarrow> raise e
             | Payload data \<Rightarrow>
                 (\<lambda>s. then_do (update_api_status ''CoinGecko'' True [])
                        (\<lambda>_. ok (Some (cg_prices (local_date s) data))) s))
          else
            then_do (update_api_status ''CoinGecko'' False (''Status code: '' @ str_int status_code))
              (\<lambda>_. ok None)))
       (\<lambda>e. then_do (logging_error (''Error fetching Bitcoin prices: '' @ str_exc e))
              (\<lambda>_. then_do (update_api_status ''CoinGecko'' False (str_exc e))
              (\<lambda>_. ok None)))"

subsection \<open>Ratio and refresh\<close>

definition py_div :: "real \<Rightarrow> real \<Rightarrow> py_error + real" where
  "py_div a b = (if b = 0 then Inl ZeroDivisionError else Inr (a / b))"

definition calculate_ratio :: "state \<Rightarrow> price \<Rightarrow> price \<Rightarrow> py_error + real" where
  "calculate_ratio s gold_price btc_price =
     (if ratio_mode s = ''btc_gold'' then py_div btc_price gold_price
      else py_div gold_price btc_price)"

definition get_ratio_column_name :: "state \<Rightarrow> string" where
  "get_ratio_column_name s =
     (if ratio_mode s = ''btc_gold'' then ''BTC/Gold Ratio'' else ''Gold/BTC Ratio'')"

text \<open>The body of the loop \<open>for date in dates\<close> of \<open>refresh_data\<close>, then the loop.\<close>

definition refresh_row :: "series \<Rightarrow> series \<Rightarrow> date \<Rightarrow> unit m" where
  "refresh_row gold_prices bitcoin_prices date s =
     (let gold_price = map_of gold_prices date;
          bitcoin_price = map_of bitcoin_prices date
      in if truthy_float gold_price \<and> truthy_float bitcoin_price then
           (case calculate_ratio s (the gold_price) (the bitcoin_price) of
              Inl e \<Rightarrow> (Inl e, s)
            | Inr ratio \<Rightarrow>
                (Inr (),
                 s\<lparr>current_data := current_data s @
                      [\<lparr>Date = date, Gold_Price_USD = the gold_price,
                        Bitcoin_Price_USD = the bitcoin_price, Ratio = ratio\<rparr>],
                   tree := tree s @ [(date, the gold_price, the bitcoin_price, ratio)]\<rparr>))
         else (Inr (), s))"

fun refresh_rows :: "series \<Rightarrow> series \<Rightarrow> date list \<Rightarrow> unit m" where
  "refresh_rows gold_prices bitcoin_prices [] = ok ()"
| "refresh_rows gold_prices bitcoin_prices (date # dates) =
     then_do (refresh_row gold_prices bitcoin_prices date)
       (\<lambda>_. refresh_rows gold_prices bitcoin_prices dates)"

text \<open>
  Lines 310 to 342 of \<open>refresh_data\<close>: what is done with the two fetched series.
\<close>

definition select_dates :: "series \<Rightarrow> series \<Rightarrow> int \<Rightarrow> date list" where
  "select_dates gold_prices bitcoin_prices days =
     slice_from
       (sorted_list_of_set (set (map fst gold_prices) \<inter> set (map fst bitcoin_prices)))
       (- days)"

definition show_prices :: "series option \<Rightarrow> series option \<Rightarrow> unit m" where
  "show_prices gold_prices bitcoin_prices s =
     (if truthy_dict gold_prices \<and> truthy_dict bitcoin_prices then
        then_do
          (refresh_rows (the gold_prices) (the bitcoin_prices)
             (select_dates (the gold_prices) (the bitcoin_prices) (days_to_show s)))
          (\<lambda>_ s'. (Inr (), s'\<lparr>refresh_label := Last_refreshed (clock s')\<rparr>)) s
      else
        showerror ''Error'' ''Failed to fetch price data''
          (s\<lparr>refresh_label := Error_fetching\<rparr>))"

text \<open>
  \<open>days_to_show\<close> is a \<open>tk.IntVar\<close>, so \<open>int(self.days_to_show.get())\<close> is the integer
  it holds and the \<open>except ValueError\<close> branch is not reached.
\<close>

definition refresh_data :: "unit m" where
  "refresh_data s =
     (let days = days_to_show s
      in if days \<le> 0 then showerror ''Error'' ''Please enter a positive number of days'' s
         else
           then_do get_gold_prices_historical (\<lambda>gold_prices.
           then_do get_bitcoin_prices_historical (\<lambda>bitcoin_prices.
             show_prices gold_prices bitcoin_prices))
             (s\<lparr>tree := [], current_data := [], ratio_heading := get_ratio_column_name s\<rparr>))"


section \<open>Auxiliary notions for the statements\<close>

text \<open>
  \<open>refresh_data\<close> empties the table and \<open>current_data\<close> before it fetches; \<open>rows_shown\<close> is
  the dataset it then builds from the two series its fetches returned.
\<close>

definition rows_shown :: "series \<Rightarrow> series \<Rightarrow> state \<Rightarrow> ratio_row list" where
  "rows_shown gold_prices bitcoin_prices s =
     current_data (snd (show_prices (Some gold_prices) (Some bitcoin_prices)
       (s\<lparr>tree := [], current_data := []\<rparr>)))"

text \<open>
  The date selection in the words of the specification: intersect the two key sets, sort
  ascending, keep at most the last \<open>limit\<close> dates.
\<close>

definition spec_dates :: "series \<Rightarrow> series \<Rightarrow> nat \<Rightarrow> date list" where
  "spec_dates gold crypto limit =
     (let common = sorted_list_of_set (set (map fst gold) \<inter> set (map fst crypto))
      in drop (length common - limit) common)"

definition priced :: "series \<Rightarrow> series \<Rightarrow> date \<Rightarrow> bool" where
  "priced gold btc d = (truthy_float (map_of gold d) \<and> truthy_float (map_of btc d))"

definition ratio_point :: "string \<Rightarrow> series \<Rightarrow> series \<Rightarrow> date \<Rightarrow> ratio_row" where
  "ratio_point mode gold btc d =
     (let g = the (map_of gold d); b = the (map_of btc d)
      in \<lparr>Date = d, Gold_Price_USD = g, Bitcoin_Price_USD = b,
          Ratio = (if mode = ''btc_gold'' then b / g else g / b)\<rparr>)"

definition tree_values :: "ratio_row \<Rightarrow> date \<times> price \<times> price \<times> real" where
  "tree_values r = (Date r, Gold_Price_USD r, Bitcoin_Price_USD r, Ratio r)"

text \<open>What a failed NBP attempt writes to the log.\<close>

definition nbp_failure :: "state \<Rightarrow> log_entry list" where
  "nbp_failure s =
     (case nbp_api s (days_to_show s) of
        Transport_error e \<Rightarrow>
          [Log_error (''Error fetching NBP gold prices: '' @ str_exc e),
           Log_info ''NBP'' (Failed (str_exc e))]
      | Response status_code (Malformed e) \<Rightarrow>
          if status_code = 200 then
            [Log_error (''Error fetching NBP gold prices: '' @ str_exc e),
             Log_info ''NBP'' (Failed (str_exc e))]
          else [Log_info ''NBP'' (Failed (''Status code: '' @ str_int status_code))]
      | Response status_code (Payload data) \<Rightarrow>
          [Log_info ''NBP'' (Failed (''Status code: '' @ str_int status_code))])"

text \<open>The fetches leave everything but the statuses, the trace, the log and the cache alone.\<close>

definition fetch_frame :: "state \<Rightarrow> state \<Rightarrow> bool" where
  "fetch_frame s s' =
     (days_to_show s' = days_to_show s \<and> ratio_mode s' = ratio_mode s \<and>
      current_data s' = current_data s \<and> tree s' = tree s \<and>
      ratio_heading s' = ratio_heading s \<and> refresh_label s' = refresh_label s \<and>
      messagebox s' = messagebox s \<and> clock s' = clock s \<and> local_date s' = local_date s \<and>
      utcoffset s' = utcoffset s \<and> localtime_ok s' = localtime_ok s \<and>
      cache_write s' = cache_write s \<and> nbp_api s' = nbp_api s \<and>
      yf_history s' = yf_history s \<and> coingecko_api s' = coingecko_api s)"

text \<open>What \<open>load_cached_prices\<close> returns, as one expression.\<close>

definition cache_lookup :: "state \<Rightarrow> series option" where
  "cache_lookup s =
     (case cache_file s of
        Record (Some timestamp) ps \<Rightarrow>
          (case datetime_fromtimestamp s timestamp of
             Inr cache_time \<Rightarrow> if datetime_now s - cache_time < 3600 then ps else None
           | Inl e \<Rightarrow> None)
      | _ \<Rightarrow> None)"

text \<open>
  A state to run the methods on: noon of 2 January 2024 on a machine set to UTC, no cache file, NBP answering
  500, GLD closing at 190 and 191, and three CoinGecko samples, two of them on 1 January.
\<close>

definition example_state :: state where
  "example_state =
     \<lparr>days_to_show = 7, ratio_mode = ''btc_gold'', current_data = [], api_status = [],
      tree = [], ratio_heading = [], refresh_label = Blank, messagebox = [],
      clock = 1704196800,
      local_date = (\<lambda>t. if t < 1704153600 then ''2024-01-01'' else ''2024-01-02''),
      utcoffset = (\<lambda>t. 0),
      localtime_ok = (\<lambda>t. - 62135596800 \<le> t \<and> t < 253402300800),
      cache_file = No_file, cache_write = Write_ok,
      nbp_api = (\<lambda>_. Response 500 (Malformed JSONDecodeError)),
      yf_history = (\<lambda>_ _. Yf_frame [(''2024-01-01'', 190), (''2024-01-02'', 191)]),
      coingecko_api = (\<lambda>_ _. Response 200
        (Payload [(1704067200000, 40000), (1704110400000, 42000), (1704153600000, 44000)])),
      calls = [], logged = []\<rparr>"

text \<open>
  The same moment with a cache file written 800 seconds earlier, whose gold price for
  1 January is zero.
\<close>

definition zero_gold_state :: state where
  "zero_gold_state =
     example_state\<lparr>cache_file :=
       Record (Some 1704196000) (Some [(''2024-01-01'', 0), (''2024-01-02'', 1900)])\<rparr>"

text \<open>
  A machine set to Europe/Warsaw in 2024: two hours ahead of UTC from 31 March, 01:00 UTC, to
  27 October, 01:00 UTC, and one hour ahead otherwise. In \<open>autumn_state\<close> it is 01:45 UTC
  on 27 October and the cache was written at 00:15 UTC; in \<open>spring_state\<close> it is 01:15 UTC
  on 31 March and the cache was written at 00:45 UTC.
\<close>

definition warsaw_offset :: "real \<Rightarrow> real" where
  "warsaw_offset t = (if 1711846800 \<le> t \<and> t < 1729990800 then 7200 else 3600)"

definition autumn_state :: state where
  "autumn_state =
     example_state\<lparr>utcoffset := warsaw_offset, clock := 1729993500,
       cache_file := Record (Some 1729988100) (Some [(''2024-10-25'', 2700)])\<rparr>"

definition spring_state :: state where
  "spring_state =
     example_state\<lparr>utcoffset := warsaw_offset, clock := 1711847700,
       cache_file := Record (Some 1711845900) (Some [(''2024-03-29'', 2200)])\<rparr>"

text \<open>A later moment, after a failed refresh: another clock, cache, table, log and trace.\<close>

definition stale_state :: state where
  "stale_state =
     example_state\<lparr>clock := 1800000000, cache_file := Unreadable JSONDecodeError,
       api_status := [(''NBP'', False), (''CoinGecko'', False)],
       current_data := [\<lparr>Date = ''2023-12-31'', Gold_Price_USD = 1, Bitcoin_Price_USD = 1,
                         Ratio = 1\<rparr>],
       tree := [(''2023-12-31'', 1, 1, 1)], refresh_label := Error_fetching,
       messagebox := [(''Error'', ''Failed to fetch price data'')],
       calls := [Cache_read], logged := [Log_error ''Error caching prices: disk full'']\<rparr>"

section \<open>The methods, equation by equation\<close>

lemmas m_defs = ok_def raise_def then_do_def try_except_def logging_error_def showerror_def
  update_api_status_def

lemma load_cached_prices_eq:
  "load_cached_prices s = (Inr (cache_lookup s), s\<lparr>calls := calls s @ [Cache_read]\<rparr>)"
  by (simp add: load_cached_prices_def load_cached_prices_try_def cache_lookup_def m_defs Let_def
      split: cache_storage.splits option.splits sum.splits)

lemma cache_lookup_cong:
  assumes "cache_file s' = cache_file s" and "clock s' = clock s"
    and "utcoffset s' = utcoffset s" and "localtime_ok s' = localtime_ok s"
  shows "cache_lookup s' = cache_lookup s"
  by (simp add: cache_lookup_def datetime_fromtimestamp_def datetime_now_def assms
      split: cache_storage.splits option.splits)

text \<open>
  As long as the UTC offset is the same at the two moments, the freshness test compares the
  age of the record, in whole microseconds, with one hour.
\<close>

lemma cache_lookup_same_offset:
  assumes "cache_file s = Record (Some timestamp) ps" and "localtime_ok s timestamp"
    and "utcoffset s timestamp = utcoffset s (clock s)"
  shows "cache_lookup s =
     (if round_us (clock s) - round_us timestamp < 3600 then ps else None)"
  using assms by (simp add: cache_lookup_def datetime_fromtimestamp_def datetime_now_def)

lemma cache_prices_eq:
  "cache_prices prices s =
     (Inr (),
      case cache_write s of
        Write_ok \<Rightarrow> s\<lparr>calls := calls s @ [Cache_write],
                       cache_file := Record (Some (clock s)) (Some prices)\<rparr>
      | Open_fails e \<Rightarrow> s\<lparr>calls := calls s @ [Cache_write],
                          logged := logged s @ [Log_error (''Error caching prices: '' @ str_exc e)]\<rparr>
      | Dump_fails e \<Rightarrow> s\<lparr>calls := calls s @ [Cache_write],
                          cache_file := Unreadable JSONDecodeError,
                          logged := logged s @ [Log_error (''Error caching prices: '' @ str_exc e)]\<rparr>)"
  by (simp add: cache_prices_def cache_prices_try_def m_defs Let_def split: write_outcome.splits)

lemma get_gold_prices_yfinance_eq:
  "get_gold_prices_yfinance s =
     (case yf_history s (clock s) (days_to_show s) of
        Yf_frame df \<Rightarrow>
          (Inr (Some (yf_prices df)),
           s\<lparr>calls := calls s @ [Yf_get (days_to_show s)],
             api_status := AList.update ''YFinance'' True (api_status s),
             logged := logged s @ [Log_info ''YFinance'' Success]\<rparr>)
      | Yf_raises e \<Rightarrow>
          (Inr None,
           s\<lparr>calls := calls s @ [Yf_get (days_to_show s)],
             api_status := AList.update ''YFinance'' False (api_status s),
             logged := logged s @
               [Log_error (''Error fetching YFinance gold prices: '' @ str_exc e),
                Log_info ''YFinance'' (Failed (str_exc e))]\<rparr>))"
  by (simp add: get_gold_prices_yfinance_def m_defs Let_def split: yf_result.splits)

lemma gold_cache_hit:
  assumes "fst (load_cached_prices s) = Inr cached" and "truthy_dict cached"
  shows "get_gold_prices_historical s =
     (Inr cached,
      s\<lparr>calls := calls s @ [Cache_read],
        api_status := AList.update ''NBP'' True (api_status s),
        logged := logged s @ [Log_info ''NBP'' Success]\<rparr>)"
  using assms
  by (simp add: get_gold_prices_historical_def m_defs load_cached_prices_eq)

lemma gold_primary_ok:
  assumes "fst (load_cached_prices s) = Inr cached" and "\<not> truthy_dict cached"
    and "nbp_api s (days_to_show s) = Response 200 (Payload data)"
  shows "get_gold_prices_historical s =
     (let s2 = snd (cache_prices (nbp_prices data)
                 (s\<lparr>calls := calls s @ [Cache_read, Nbp_get (days_to_show s)]\<rparr>))
      in (Inr (Some (nbp_prices data)),
          s2\<lparr>api_status := AList.update ''NBP'' True (api_status s2),
             logged := logged s2 @ [Log_info ''NBP'' Success]\<rparr>))"
  using assms
  by (simp add: get_gold_prices_historical_def m_defs load_cached_prices_eq requests_get_nbp_def
      cache_prices_eq Let_def split: write_outcome.splits)

lemma gold_primary_fails:
  assumes "fst (load_cached_prices s) = Inr cached" and "\<not> truthy_dict cached"
    and "\<forall>data. nbp_api s (days_to_show s) \<noteq> Response 200 (Payload data)"
  shows "get_gold_prices_historical s =
     get_gold_prices_yfinance
       (s\<lparr>calls := calls s @ [Cache_read, Nbp_get (days_to_show s)],
         api_status := AList.update ''NBP'' False (api_status s),
         logged := logged s @ nbp_failure s\<rparr>)"
  using assms
  by (auto simp add: get_gold_prices_historical_def m_defs load_cached_prices_eq
      requests_get_nbp_def nbp_failure_def get_gold_prices_yfinance_eq Let_def
      split: http.splits payload.splits yf_result.splits)

lemma get_bitcoin_prices_historical_eq:
  "get_bitcoin_prices_historical s =
     (let s' = s\<lparr>calls := calls s @ [Coingecko_get (days_to_show s)]\<rparr>;
          failed = (\<lambda>e. (Inr None,
            s'\<lparr>api_status := AList.update ''CoinGecko'' False (api_status s),
               logged := logged s @
                 [Log_error (''Error fetching Bitcoin prices: '' @ str_exc e),
                  Log_info ''CoinGecko'' (Failed (str_exc e))]\<rparr>))
      in case coingecko_api s (clock s) (days_to_show s) of
           Transport_error e \<Rightarrow> failed e
         | Response status_code body \<Rightarrow>
             if status_code = 200 then
               (case body of
                  Malformed e \<Rightarrow> failed e
                | Payload data \<Rightarrow>
                    (Inr (Some (cg_prices (local_date s) data)),
                     s'\<lparr>api_status := AList.update ''CoinGecko'' True (api_status s),
                        logged := logged s @ [Log_info ''CoinGecko'' Success]\<rparr>))
             else
               (Inr None,
                s'\<lparr>api_status := AList.update ''CoinGecko'' False (api_status s),
                   logged := logged s @
                     [Log_info ''CoinGecko'' (Failed (''Status code: '' @ str_int status_code))]\<rparr>))"
  by (simp add: get_bitcoin_prices_historical_def m_defs requests_get_coingecko_def Let_def
      split: http.splits payload.splits)

lemma yfinance_total:
  "\<exists>r s'. get_gold_prices_yfinance s = (Inr r, s') \<and> fetch_frame s s'"
  by (simp add: get_gold_prices_yfinance_eq fetch_frame_def split: yf_result.splits)

lemma load_total: "\<exists>cached. fst (load_cached_prices s) = Inr cached"
  by (simp add: load_cached_prices_eq)

lemma gold_total:
  "\<exists>r s'. get_gold_prices_historical s = (Inr r, s') \<and> fetch_frame s s'"
proof -
  obtain cached where c: "fst (load_cached_prices s) = Inr cached"
    using load_total by blast
  show ?thesis
  proof (cases "truthy_dict cached")
    case True
    then show ?thesis
      by (simp add: gold_cache_hit [OF c] fetch_frame_def)
  next
    case miss: False
    show ?thesis
    proof (cases "\<exists>data. nbp_api s (days_to_show s) = Response 200 (Payload data)")
      case True
      then obtain data where "nbp_api s (days_to_show s) = Response 200 (Payload data)" ..
      then show ?thesis
        by (simp add: gold_primary_ok [OF c miss] cache_prices_eq fetch_frame_def Let_def
            split: write_outcome.splits)
    next
      case False
      then have "\<forall>data. nbp_api s (days_to_show s) \<noteq> Response 200 (Payload data)"
        by blast
      then show ?thesis
        by (simp add: gold_primary_fails [OF c miss] get_gold_prices_yfinance_eq fetch_frame_def
            split: yf_result.splits)
    qed
  qed
qed

lemma bitcoin_total:
  "\<exists>r s' v. get_bitcoin_prices_historical s = (Inr r, s') \<and> fetch_frame s s' \<and>
     cache_file s' = cache_file s \<and>
     api_status s' = AList.update ''CoinGecko'' v (api_status s)"
proof (cases "coingecko_api s (clock s) (days_to_show s)")
  case (Transport_error e)
  then show ?thesis
    by (auto simp add: get_bitcoin_prices_historical_eq fetch_frame_def Let_def)
next
  case (Response status_code body)
  then show ?thesis
    by (cases body; cases "status_code = 200")
      (auto simp add: get_bitcoin_prices_historical_eq fetch_frame_def Let_def)
qed

lemma refresh_row_eq:
  "refresh_row gold btc d s =
     (Inr (),
      if priced gold btc d
      then s\<lparr>current_data := current_data s @ [ratio_point (ratio_mode s) gold btc d],
             tree := tree s @ [tree_values (ratio_point (ratio_mode s) gold btc d)]\<rparr>
      else s)"
  by (auto simp: refresh_row_def priced_def ratio_point_def tree_values_def calculate_ratio_def
      py_div_def truthy_float_def Let_def split: option.splits)

lemma refresh_rows_eq:
  "refresh_rows gold btc dates s =
     (Inr (),
      s\<lparr>current_data := current_data s @
           map (ratio_point (ratio_mode s) gold btc) (filter (priced gold btc) dates),
        tree := tree s @
           map (tree_values \<circ> ratio_point (ratio_mode s) gold btc)
             (filter (priced gold btc) dates)\<rparr>)"
proof (induction dates arbitrary: s)
  case Nil
  show ?case by (simp add: ok_def)
next
  case (Cons d dates)
  show ?case
    by (simp add: then_do_def refresh_row_eq Cons.IH)
qed

lemma show_prices_absent:
  "\<not> (truthy_dict gold \<and> truthy_dict btc) \<Longrightarrow>
   show_prices gold btc s =
     (Inr (), s\<lparr>refresh_label := Error_fetching,
                messagebox := messagebox s @ [(''Error'', ''Failed to fetch price data'')]\<rparr>)"
  by (auto simp: show_prices_def showerror_def)

lemma show_prices_present:
  "gold \<noteq> [] \<Longrightarrow> btc \<noteq> [] \<Longrightarrow>
   show_prices (Some gold) (Some btc) s =
     (let dates = filter (priced gold btc) (select_dates gold btc (days_to_show s))
      in (Inr (),
          s\<lparr>current_data := current_data s @ map (ratio_point (ratio_mode s) gold btc) dates,
            tree := tree s @ map (tree_values \<circ> ratio_point (ratio_mode s) gold btc) dates,
            refresh_label := Last_refreshed (clock s)\<rparr>))"
  by (simp add: show_prices_def truthy_dict_def then_do_def refresh_rows_eq Let_def)

lemma show_prices_total: "fst (show_prices gold btc s) = Inr ()"
proof (cases "truthy_dict gold \<and> truthy_dict btc")
  case True
  then obtain g b where "gold = Some g" "btc = Some b" "g \<noteq> []" "b \<noteq> []"
    by (auto simp: truthy_dict_def split: option.splits)
  then show ?thesis
    by (simp add: show_prices_present Let_def)
next
  case False
  then show ?thesis
    by (simp add: show_prices_absent)
qed

lemma select_dates_empty:
  "gold = [] \<or> btc = [] \<Longrightarrow> select_dates gold btc days = []"
  by (auto simp: select_dates_def slice_from_def)

lemma rows_shown_eq:
  "rows_shown gold btc s =
     map (ratio_point (ratio_mode s) gold btc)
       (filter (priced gold btc) (select_dates gold btc (days_to_show s)))"
proof (cases "gold = [] \<or> btc = []")
  case True
  then have "\<not> (truthy_dict (Some gold) \<and> truthy_dict (Some btc))"
    by (auto simp: truthy_dict_def)
  then show ?thesis
    using True by (simp add: rows_shown_def show_prices_absent select_dates_empty)
next
  case False
  then show ?thesis
    by (simp add: rows_shown_def show_prices_present Let_def)
qed

lemma select_dates_spec:
  "0 < days \<Longrightarrow> select_dates gold btc days = spec_dates gold btc (nat days)"
  by (simp add: select_dates_def spec_dates_def slice_from_def Let_def max_def nat_diff_distrib')


lemma refresh_data_eq:
  assumes "0 < days_to_show s"
  shows "\<exists>gold btc s'.
     refresh_data s = show_prices gold btc s' \<and> current_data s' = [] \<and> tree s' = [] \<and>
     days_to_show s' = days_to_show s \<and> ratio_mode s' = ratio_mode s \<and>
     messagebox s' = messagebox s"
proof -
  let ?s1 = "s\<lparr>tree := [], current_data := [], ratio_heading := get_ratio_column_name s\<rparr>"
  obtain gold s2 where g: "get_gold_prices_historical ?s1 = (Inr gold, s2)" "fetch_frame ?s1 s2"
    using gold_total by blast
  obtain btc s3 where b: "get_bitcoin_prices_historical s2 = (Inr btc, s3)" "fetch_frame s2 s3"
    using bitcoin_total by blast
  have "refresh_data s = show_prices gold btc s3"
    using assms g(1) b(1) by (simp add: refresh_data_def then_do_def Let_def)
  moreover have "current_data s3 = [] \<and> tree s3 = [] \<and> days_to_show s3 = days_to_show s \<and>
      ratio_mode s3 = ratio_mode s \<and> messagebox s3 = messagebox s"
    using g(2) b(2) by (simp add: fetch_frame_def)
  ultimately show ?thesis by blast
qed

lemma refresh_data_total: "fst (refresh_data s) = Inr ()"
proof (cases "0 < days_to_show s")
  case True
  then show ?thesis
    using refresh_data_eq [of s] show_prices_total by auto
next
  case False
  then show ?thesis
    by (simp add: refresh_data_def showerror_def)
qed

lemma show_prices_rows:
  "current_data (snd (show_prices (Some gold) (Some btc) s)) =
     current_data s @
       map (ratio_point (ratio_mode s) gold btc)
         (filter (priced gold btc) (select_dates gold btc (days_to_show s)))"
proof (cases "gold = [] \<or> btc = []")
  case True
  then have "\<not> (truthy_dict (Some gold) \<and> truthy_dict (Some btc))"
    by (auto simp: truthy_dict_def)
  then show ?thesis
    using True by (simp add: show_prices_absent select_dates_empty)
next
  case False
  then show ?thesis
    by (simp add: show_prices_present Let_def)
qed

text \<open>The dataset of a refresh is \<open>rows_shown\<close> of what its two fetches returned.\<close>

lemma refresh_data_rows_shown:
  assumes "0 < days_to_show s"
    and "get_gold_prices_historical
           (s\<lparr>tree := [], current_data := [], ratio_heading := get_ratio_column_name s\<rparr>)
         = (Inr (Some gold), s2)"
    and "get_bitcoin_prices_historical s2 = (Inr (Some btc), s3)"
  shows "current_data (snd (refresh_data s)) = rows_shown gold btc s"
proof -
  let ?s1 = "s\<lparr>tree := [], current_data := [], ratio_heading := get_ratio_column_name s\<rparr>"
  have "fetch_frame ?s1 s2"
    using gold_total [of ?s1] assms(2) by auto
  moreover have "fetch_frame s2 s3"
    using bitcoin_total [of s2] assms(3) by auto
  ultimately have "current_data s3 = [] \<and> ratio_mode s3 = ratio_mode s \<and>
      days_to_show s3 = days_to_show s"
    by (simp add: fetch_frame_def)
  moreover have "refresh_data s = show_prices (Some gold) (Some btc) s3"
    using assms by (simp add: refresh_data_def then_do_def Let_def)
  ultimately show ?thesis
    by (simp add: rows_shown_def show_prices_rows)
qed

lemma Date_ratio_point [simp]: "Date (ratio_point mode gold btc d) = d"
  by (simp add: ratio_point_def Let_def)

lemma set_spec_dates:
  "set (spec_dates gold btc limit) \<subseteq> fst ` set gold \<inter> fst ` set btc"
proof -
  have "set (spec_dates gold btc limit) \<subseteq>
      set (sorted_list_of_set (set (map fst gold) \<inter> set (map fst btc)))"
    unfolding spec_dates_def Let_def by (rule set_drop_subset)
  then show ?thesis by simp
qed

lemma priced_iff:
  assumes "d \<in> fst ` set gold" and "d \<in> fst ` set btc"
  shows "priced gold btc d \<longleftrightarrow> map_of gold d \<noteq> Some 0 \<and> map_of btc d \<noteq> Some 0"
proof -
  obtain g b where "map_of gold d = Some g" "map_of btc d = Some b"
    using assms by (metis map_of_eq_None_iff not_Some_eq)
  then show ?thesis
    by (simp add: priced_def truthy_float_def)
qed

lemma map_of_cg_step:
  "map_of (cg_step f (t, p) acc) d =
     (case map_of acc d of
        Some v \<Rightarrow> Some v
      | None \<Rightarrow> if f (t / 1000) = d then Some p else None)"
  by (auto simp: cg_step_def Let_def update_conv' map_of_eq_None_iff [symmetric]
      split: option.splits)

lemma cg_fold:
  "map_of (fold (cg_step f) data acc) d =
     (case map_of acc d of
        Some v \<Rightarrow> Some v
      | None \<Rightarrow> map_option snd (find (\<lambda>(timestamp, price). f (timestamp / 1000) = d) data))"
proof (induction data arbitrary: acc)
  case Nil
  show ?case by (simp split: option.splits)
next
  case (Cons x data)
  obtain t p where x: "x = (t, p)" by (cases x)
  show ?case
    by (simp add: x Cons.IH map_of_cg_step split: option.splits)
qed

lemma distinct_cg_step:
  "distinct (map fst acc) \<Longrightarrow> distinct (map fst (cg_step f x acc))"
  by (cases x) (simp add: cg_step_def Let_def distinct_update)

lemma cg_fold_distinct:
  "distinct (map fst acc) \<Longrightarrow> distinct (map fst (fold (cg_step f) data acc))"
  by (induction data arbitrary: acc) (simp_all add: distinct_cg_step)

lemma select_dates_cong:
  assumes "map_of gold' = map_of gold" and "map_of btc' = map_of btc"
  shows "select_dates gold' btc' days = select_dates gold btc days"
proof -
  have "dom (map_of gold') = dom (map_of gold)" "dom (map_of btc') = dom (map_of btc)"
    using assms by simp_all
  then have "fst ` set gold' = fst ` set gold" "fst ` set btc' = fst ` set btc"
    by (simp_all only: dom_map_of_conv_image_fst)
  then show ?thesis
    by (simp add: select_dates_def)
qed


lemma rows_shown_cong:
  assumes "ratio_mode s1 = ratio_mode s2" and "days_to_show s1 = days_to_show s2"
    and "map_of gold' = map_of gold" and "map_of btc' = map_of btc"
  shows "rows_shown gold' btc' s1 = rows_shown gold btc s2"
proof -
  have "priced gold' btc' = priced gold btc"
    by (rule ext) (simp add: priced_def assms(3,4))
  moreover have "ratio_point (ratio_mode s1) gold' btc' = ratio_point (ratio_mode s2) gold btc"
    by (rule ext) (simp add: ratio_point_def assms(1,3,4))
  moreover note select_dates_cong [OF assms(3,4)]
  ultimately show ?thesis
    by (simp add: rows_shown_eq assms(2))
qed


lemma rows_shown_nonzero:
  assumes "r \<in> set (rows_shown gold btc s)"
  shows "map_of gold (Date r) = Some (Gold_Price_USD r) \<and>
     map_of btc (Date r) = Some (Bitcoin_Price_USD r) \<and>
     Gold_Price_USD r \<noteq> 0 \<and> Bitcoin_Price_USD r \<noteq> 0 \<and>
     Ratio r = (if ratio_mode s = ''btc_gold'' then Bitcoin_Price_USD r / Gold_Price_USD r
                else Gold_Price_USD r / Bitcoin_Price_USD r)"
proof -
  from assms obtain d where d: "priced gold btc d" "r = ratio_point (ratio_mode s) gold btc d"
    unfolding rows_shown_eq by auto
  from d(1) obtain g b where "map_of gold d = Some g" "map_of btc d = Some b" "g \<noteq> 0" "b \<noteq> 0"
    unfolding priced_def truthy_float_def by (auto split: option.splits)
  then show ?thesis
    by (simp add: d(2) ratio_point_def)
qed

section \<open>The cache\<close>

text \<open>
  C2. \<open>load_cached_prices\<close> never raises, and it returns \<open>None\<close> when there is no file, when
  the file is unreadable or malformed and when the record lacks one of its two entries. Its
  freshness test, commented "Cache valid for 1 hour" in the source, subtracts two naive
  local datetimes, so it compares readings of the wall clock and not the age of the record.
  On a machine set to Europe/Warsaw, on the night the clocks go back, a record written 5400
  seconds ago (02:15 against 02:45 on the wall clock) is returned; on the night they go
  forward, a record written 1800 seconds ago (01:45 against 03:15) is not.
\<close>

theorem load_cached_prices_daylight_saving:
  "cache_file autumn_state = Record (Some 1729988100) (Some [(''2024-10-25'', 2700)])
   \<and> clock autumn_state - 1729988100 = 5400
   \<and> fst (load_cached_prices autumn_state) = Inr (Some [(''2024-10-25'', 2700)])
   \<and> cache_file spring_state = Record (Some 1711845900) (Some [(''2024-03-29'', 2200)])
   \<and> clock spring_state - 1711845900 = 1800
   \<and> fst (load_cached_prices spring_state) = Inr None"
  by (simp add: load_cached_prices_eq cache_lookup_def datetime_fromtimestamp_def
      datetime_now_def round_us_def round_half_even_def warsaw_offset_def autumn_state_def
      spring_state_def example_state_def)

text \<open>
  C7. \<open>cache_prices\<close> never raises. When the write goes through, the file holds the record
  made of the clock and the given series, whatever it held before; when it fails, the error
  is logged. A refresh whose cache missed and whose NBP request returned 200 with a
  well-formed payload returns the NBP series and marks NBP as succeeded whether or not the
  write went through.
\<close>

theorem cache_prices_best_effort:
  "fst (cache_prices prices s) = Inr ()
   \<and> (cache_write s = Write_ok \<longrightarrow>
        cache_file (snd (cache_prices prices s)) = Record (Some (clock s)) (Some prices))
   \<and> (\<forall>e. cache_write s \<in> {Open_fails e, Dump_fails e} \<longrightarrow>
        logged (snd (cache_prices prices s)) =
          logged s @ [Log_error (''Error caching prices: '' @ str_exc e)])
   \<and> (\<forall>cached data.
        fst (load_cached_prices s) = Inr cached \<and> \<not> truthy_dict cached \<and>
        nbp_api s (days_to_show s) = Response 200 (Payload data) \<longrightarrow>
          fst (get_gold_prices_historical s) = Inr (Some (nbp_prices data)) \<and>
          map_of (api_status (snd (get_gold_prices_historical s))) ''NBP'' = Some True)"
proof (intro conjI allI impI)
  show "fst (cache_prices prices s) = Inr ()"
    by (simp add: cache_prices_eq)
  show "cache_file (snd (cache_prices prices s)) = Record (Some (clock s)) (Some prices)"
    if "cache_write s = Write_ok"
    using that by (simp add: cache_prices_eq)
  show "logged (snd (cache_prices prices s)) =
      logged s @ [Log_error (''Error caching prices: '' @ str_exc e)]"
    if "cache_write s \<in> {Open_fails e, Dump_fails e}" for e
    using that by (auto simp: cache_prices_eq)
next
  fix cached data
  assume h: "fst (load_cached_prices s) = Inr cached \<and> \<not> truthy_dict cached \<and>
      nbp_api s (days_to_show s) = Response 200 (Payload data)"
  then have eq: "get_gold_prices_historical s =
     (let s2 = snd (cache_prices (nbp_prices data)
                 (s\<lparr>calls := calls s @ [Cache_read, Nbp_get (days_to_show s)]\<rparr>))
      in (Inr (Some (nbp_prices data)),
          s2\<lparr>api_status := AList.update ''NBP'' True (api_status s2),
             logged := logged s2 @ [Log_info ''NBP'' Success]\<rparr>))"
    using gold_primary_ok by blast
  show "fst (get_gold_prices_historical s) = Inr (Some (nbp_prices data))"
    by (simp add: eq Let_def)
  show "map_of (api_status (snd (get_gold_prices_historical s))) ''NBP'' = Some True"
    by (simp add: eq Let_def update_conv')
qed

theorem cache_prices_best_effort_witness:
  "cache_file (snd (cache_prices [(''2024-01-01'', 2000)]
      (example_state\<lparr>cache_file := Record (Some 5) (Some [])\<rparr>)))
     = Record (Some 1704196800) (Some [(''2024-01-01'', 2000)])
   \<and> cache_prices [(''2024-01-01'', 2000)]
       (example_state\<lparr>cache_write := Open_fails (OtherError ''Permission denied'')\<rparr>)
     = (Inr (),
        example_state\<lparr>cache_write := Open_fails (OtherError ''Permission denied''),
          calls := [Cache_write],
          logged := [Log_error ''Error caching prices: Permission denied'']\<rparr>)
   \<and> fst (get_gold_prices_historical
       (example_state\<lparr>cache_write := Open_fails (OtherError ''Permission denied''),
          nbp_api := (\<lambda>_. Response 200 (Payload [(''2024-01-02'', 200)]))\<rparr>))
     = Inr (Some (nbp_prices [(''2024-01-02'', 200)]))"
proof (intro conjI)
  let ?s1 = "example_state\<lparr>cache_file := Record (Some 5) (Some [])\<rparr>"
  have "cache_write ?s1 = Write_ok" "clock ?s1 = 1704196800"
    by (simp_all add: example_state_def)
  then show "cache_file (snd (cache_prices [(''2024-01-01'', 2000)] ?s1))
      = Record (Some 1704196800) (Some [(''2024-01-01'', 2000)])"
    using cache_prices_best_effort [of "[(''2024-01-01'', 2000)]" ?s1] by simp
next
  let ?s2 = "example_state\<lparr>cache_write := Open_fails (OtherError ''Permission denied'')\<rparr>"
  show "cache_prices [(''2024-01-01'', 2000)] ?s2
     = (Inr (), ?s2\<lparr>calls := [Cache_write],
          logged := [Log_error ''Error caching prices: Permission denied'']\<rparr>)"
    by (simp add: cache_prices_eq example_state_def)
next
  let ?s3 = "example_state\<lparr>cache_write := Open_fails (OtherError ''Permission denied''),
          nbp_api := (\<lambda>_. Response 200 (Payload [(''2024-01-02'', 200)]))\<rparr>"
  have "fst (load_cached_prices ?s3) = Inr None \<and> \<not> truthy_dict None \<and>
      nbp_api ?s3 (days_to_show ?s3) = Response 200 (Payload [(''2024-01-02'', 200)])"
    by (simp add: load_cached_prices_eq cache_lookup_def example_state_def truthy_dict_def)
  then show "fst (get_gold_prices_historical ?s3)
      = Inr (Some (nbp_prices [(''2024-01-02'', 200)]))"
    using cache_prices_best_effort [of "[]" ?s3] by blast
qed

section \<open>Rejected requests\<close>

text \<open>
  C6. With a day count of zero or less, \<open>refresh_data\<close> shows the error dialog and returns:
  the state is otherwise the one it started in, so the cache file was not read or written,
  no provider was called, and the table and \<open>current_data\<close> are as they were.
\<close>

theorem refresh_data_rejects_nonpositive_days:
  assumes "days_to_show s \<le> 0"
  shows "refresh_data s =
       (Inr (), s\<lparr>messagebox := messagebox s @
          [(''Error'', ''Please enter a positive number of days'')]\<rparr>)
     \<and> calls (snd (refresh_data s)) = calls s
     \<and> cache_file (snd (refresh_data s)) = cache_file s
     \<and> current_data (snd (refresh_data s)) = current_data s
     \<and> tree (snd (refresh_data s)) = tree s
     \<and> api_status (snd (refresh_data s)) = api_status s"
  using assms by (simp add: refresh_data_def showerror_def)

theorem refresh_data_rejects_nonpositive_days_witness:
  "days_to_show (example_state\<lparr>days_to_show := 0, calls := [Cache_read]\<rparr>) \<le> 0
   \<and> calls (snd (refresh_data (example_state\<lparr>days_to_show := 0, calls := [Cache_read]\<rparr>)))
     = [Cache_read]
   \<and> days_to_show (example_state\<lparr>days_to_show := - 3\<rparr>) \<le> 0
   \<and> calls (snd (refresh_data (example_state\<lparr>days_to_show := - 3\<rparr>))) = []"
  using refresh_data_rejects_nonpositive_days
      [of "example_state\<lparr>days_to_show := 0, calls := [Cache_read]\<rparr>"]
    refresh_data_rejects_nonpositive_days [of "example_state\<lparr>days_to_show := - 3\<rparr>"]
  by (simp add: example_state_def)


section \<open>The gold chain\<close>

text \<open>
  C1. \<open>get_gold_prices_historical\<close> reads the cache first, asks NBP only when the cache
  gave nothing, and asks yfinance only when NBP failed.

  \<^item> A cache hit (a series that is not empty) is returned as it is, with NBP marked as
    succeeded; nothing but the cache was read.
  \<^item> On a miss, a 200 answer of NBP with a well-formed payload ends the chain: its series is
    returned, the cache write is attempted, NBP is marked as succeeded and yfinance is
    neither asked nor marked.
  \<^item> On a miss and a failure of NBP, a frame of yfinance gives the result: it is the
    series \<open>get_gold_prices_yfinance\<close> builds from the frame, with NBP marked as failed and
    YFinance as succeeded.
  \<^item> On a miss and a failure of both, the result is \<open>None\<close> and both are marked as failed.

  In every case the accesses added to the trace are in the order cache, NBP, then cache write
  or yfinance.
\<close>

theorem gold_chain_order:
  "(\<exists>trace. calls (snd (get_gold_prices_historical s)) = calls s @ trace \<and>
       (trace = [Cache_read] \<or>
        trace = [Cache_read, Nbp_get (days_to_show s), Cache_write] \<or>
        trace = [Cache_read, Nbp_get (days_to_show s), Yf_get (days_to_show s)]))
   \<and> (\<forall>cached.
        fst (load_cached_prices s) = Inr cached \<and> truthy_dict cached \<longrightarrow>
          get_gold_prices_historical s =
            (Inr cached,
             s\<lparr>calls := calls s @ [Cache_read],
               api_status := AList.update ''NBP'' True (api_status s),
               logged := logged s @ [Log_info ''NBP'' Success]\<rparr>))
   \<and> (\<forall>cached data.
        fst (load_cached_prices s) = Inr cached \<and> \<not> truthy_dict cached \<and>
        nbp_api s (days_to_show s) = Response 200 (Payload data) \<longrightarrow>
          fst (get_gold_prices_historical s) = Inr (Some (nbp_prices data)) \<and>
          map_of (api_status (snd (get_gold_prices_historical s))) ''NBP'' = Some True \<and>
          map_of (api_status (snd (get_gold_prices_historical s))) ''YFinance''
            = map_of (api_status s) ''YFinance'' \<and>
          calls (snd (get_gold_prices_historical s)) =
            calls s @ [Cache_read, Nbp_get (days_to_show s), Cache_write])
   \<and> (\<forall>cached df.
        fst (load_cached_prices s) = Inr cached \<and> \<not> truthy_dict cached \<and>
        (\<forall>data. nbp_api s (days_to_show s) \<noteq> Response 200 (Payload data)) \<and>
        yf_history s (clock s) (days_to_show s) = Yf_frame df \<longrightarrow>
          fst (get_gold_prices_historical s) = Inr (Some (yf_prices df)) \<and>
          fst (get_gold_prices_historical s) = fst (get_gold_prices_yfinance s) \<and>
          map_of (api_status (snd (get_gold_prices_historical s))) ''NBP'' = Some False \<and>
          map_of (api_status (snd (get_gold_prices_historical s))) ''YFinance'' = Some True \<and>
          calls (snd (get_gold_prices_historical s)) =
            calls s @ [Cache_read, Nbp_get (days_to_show s), Yf_get (days_to_show s)])
   \<and> (\<forall>cached e.
        fst (load_cached_prices s) = Inr cached \<and> \<not> truthy_dict cached \<and>
        (\<forall>data. nbp_api s (days_to_show s) \<noteq> Response 200 (Payload data)) \<and>
        yf_history s (clock s) (days_to_show s) = Yf_raises e \<longrightarrow>
          fst (get_gold_prices_historical s) = Inr None \<and>
          map_of (api_status (snd (get_gold_prices_historical s))) ''NBP'' = Some False \<and>
          map_of (api_status (snd (get_gold_prices_historical s))) ''YFinance'' = Some False \<and>
          calls (snd (get_gold_prices_historical s)) =
            calls s @ [Cache_read, Nbp_get (days_to_show s), Yf_get (days_to_show s)])"
proof -
  have order: "\<exists>trace. calls (snd (get_gold_prices_historical s)) = calls s @ trace \<and>
       (trace = [Cache_read] \<or>
        trace = [Cache_read, Nbp_get (days_to_show s), Cache_write] \<or>
        trace = [Cache_read, Nbp_get (days_to_show s), Yf_get (days_to_show s)])"
  proof -
    obtain cached where c: "fst (load_cached_prices s) = Inr cached"
      using load_total by blast
    show ?thesis
    proof (cases "truthy_dict cached")
      case True
      then show ?thesis
        by (simp add: gold_cache_hit [OF c])
    next
      case miss: False
      show ?thesis
      proof (cases "\<exists>data. nbp_api s (days_to_show s) = Response 200 (Payload data)")
        case True
        then obtain data where "nbp_api s (days_to_show s) = Response 200 (Payload data)" ..
        then show ?thesis
          by (simp add: gold_primary_ok [OF c miss] cache_prices_eq Let_def
              split: write_outcome.splits)
      next
        case False
        then have "\<forall>data. nbp_api s (days_to_show s) \<noteq> Response 200 (Payload data)"
          by blast
        then show ?thesis
          by (simp add: gold_primary_fails [OF c miss] get_gold_prices_yfinance_eq
              split: yf_result.splits)
      qed
    qed
  qed
  have hit: "get_gold_prices_historical s =
            (Inr cached,
             s\<lparr>calls := calls s @ [Cache_read],
               api_status := AList.update ''NBP'' True (api_status s),
               logged := logged s @ [Log_info ''NBP'' Success]\<rparr>)"
    if "fst (load_cached_prices s) = Inr cached \<and> truthy_dict cached" for cached
    using that gold_cache_hit [of s cached] by simp
  have primary: "fst (get_gold_prices_historical s) = Inr (Some (nbp_prices data)) \<and>
          map_of (api_status (snd (get_gold_prices_historical s))) ''NBP'' = Some True \<and>
          map_of (api_status (snd (get_gold_prices_historical s))) ''YFinance''
            = map_of (api_status s) ''YFinance'' \<and>
          calls (snd (get_gold_prices_historical s)) =
            calls s @ [Cache_read, Nbp_get (days_to_show s), Cache_write]"
    if h: "fst (load_cached_prices s) = Inr cached \<and> \<not> truthy_dict cached \<and>
        nbp_api s (days_to_show s) = Response 200 (Payload data)" for cached data
  proof -
    from h have c: "fst (load_cached_prices s) = Inr cached" and miss: "\<not> truthy_dict cached"
      and n: "nbp_api s (days_to_show s) = Response 200 (Payload data)"
      by simp_all
    show ?thesis
      by (simp add: gold_primary_ok [OF c miss n] cache_prices_eq Let_def update_conv'
          split: write_outcome.splits)
  qed
  have fallback: "fst (get_gold_prices_historical s) = Inr (Some (yf_prices df)) \<and>
          fst (get_gold_prices_historical s) = fst (get_gold_prices_yfinance s) \<and>
          map_of (api_status (snd (get_gold_prices_historical s))) ''NBP'' = Some False \<and>
          map_of (api_status (snd (get_gold_prices_historical s))) ''YFinance'' = Some True \<and>
          calls (snd (get_gold_prices_historical s)) =
            calls s @ [Cache_read, Nbp_get (days_to_show s), Yf_get (days_to_show s)]"
    if h: "fst (load_cached_prices s) = Inr cached \<and> \<not> truthy_dict cached \<and>
        (\<forall>data. nbp_api s (days_to_show s) \<noteq> Response 200 (Payload data)) \<and>
        yf_history s (clock s) (days_to_show s) = Yf_frame df" for cached df
  proof -
    from h have c: "fst (load_cached_prices s) = Inr cached" and miss: "\<not> truthy_dict cached"
      and n: "\<forall>data. nbp_api s (days_to_show s) \<noteq> Response 200 (Payload data)"
      and yf: "yf_history s (clock s) (days_to_show s) = Yf_frame df"
      by simp_all
    show ?thesis
      by (simp add: gold_primary_fails [OF c miss n] get_gold_prices_yfinance_eq yf update_conv')
  qed
  have none: "fst (get_gold_prices_historical s) = Inr None \<and>
          map_of (api_status (snd (get_gold_prices_historical s))) ''NBP'' = Some False \<and>
          map_of (api_status (snd (get_gold_prices_historical s))) ''YFinance'' = Some False \<and>
          calls (snd (get_gold_prices_historical s)) =
            calls s @ [Cache_read, Nbp_get (days_to_show s), Yf_get (days_to_show s)]"
    if h: "fst (load_cached_prices s) = Inr cached \<and> \<not> truthy_dict cached \<and>
        (\<forall>data. nbp_api s (days_to_show s) \<noteq> Response 200 (Payload data)) \<and>
        yf_history s (clock s) (days_to_show s) = Yf_raises e" for cached e
  proof -
    from h have c: "fst (load_cached_prices s) = Inr cached" and miss: "\<not> truthy_dict cached"
      and n: "\<forall>data. nbp_api s (days_to_show s) \<noteq> Response 200 (Payload data)"
      and yf: "yf_history s (clock s) (days_to_show s) = Yf_raises e"
      by simp_all
    show ?thesis
      by (simp add: gold_primary_fails [OF c miss n] get_gold_prices_yfinance_eq yf update_conv')
  qed
  have c2: "\<forall>cached.
        fst (load_cached_prices s) = Inr cached \<and> truthy_dict cached \<longrightarrow>
          get_gold_prices_historical s =
            (Inr cached,
             s\<lparr>calls := calls s @ [Cache_read],
               api_status := AList.update ''NBP'' True (api_status s),
               logged := logged s @ [Log_info ''NBP'' Success]\<rparr>)"
    by (intro allI impI) (erule hit)
  have c3: "\<forall>cached data.
        fst (load_cached_prices s) = Inr cached \<and> \<not> truthy_dict cached \<and>
        nbp_api s (days_to_show s) = Response 200 (Payload data) \<longrightarrow>
          fst (get_gold_prices_historical s) = Inr (Some (nbp_prices data)) \<and>
          map_of (api_status (snd (get_gold_prices_historical s))) ''NBP'' = Some True \<and>
          map_of (api_status (snd (get_gold_prices_historical s))) ''YFinance''
            = map_of (api_status s) ''YFinance'' \<and>
          calls (snd (get_gold_prices_historical s)) =
            calls s @ [Cache_read, Nbp_get (days_to_show s), Cache_write]"
    by (intro allI impI) (erule primary)
  have c4: "\<forall>cached df.
        fst (load_cached_prices s) = Inr cached \<and> \<not> truthy_dict cached \<and>
        (\<forall>data. nbp_api s (days_to_show s) \<noteq> Response 200 (Payload data)) \<and>
        yf_history s (clock s) (days_to_show s) = Yf_frame df \<longrightarrow>
          fst (get_gold_prices_historical s) = Inr (Some (yf_prices df)) \<and>
          fst (get_gold_prices_historical s) = fst (get_gold_prices_yfinance s) \<and>
          map_of (api_status (snd (get_gold_prices_historical s))) ''NBP'' = Some False \<and>
          map_of (api_status (snd (get_gold_prices_historical s))) ''YFinance'' = Some True \<and>
          calls (snd (get_gold_prices_historical s)) =
            calls s @ [Cache_read, Nbp_get (days_to_show s), Yf_get (days_to_show s)]"
    by (intro allI impI) (erule fallback)
  have c5: "\<forall>cached e.
        fst (load_cached_prices s) = Inr cached \<and> \<not> truthy_dict cached \<and>
        (\<forall>data. nbp_api s (days_to_show s) \<noteq> Response 200 (Payload data)) \<and>
        yf_history s (clock s) (days_to_show s) = Yf_raises e \<longrightarrow>
          fst (get_gold_prices_historical s) = Inr None \<and>
          map_of (api_status (snd (get_gold_prices_historical s))) ''NBP'' = Some False \<and>
          map_of (api_status (snd (get_gold_prices_historical s))) ''YFinance'' = Some False \<and>
          calls (snd (get_gold_prices_historical s)) =
            calls s @ [Cache_read, Nbp_get (days_to_show s), Yf_get (days_to_show s)]"
    by (intro allI impI) (erule none)
  show ?thesis
    by (rule conjI [OF order conjI [OF c2 conjI [OF c3 conjI [OF c4 c5]]]])
qed

theorem gold_chain_order_witness:
  "fst (load_cached_prices zero_gold_state)
       = Inr (Some [(''2024-01-01'', 0), (''2024-01-02'', 1900)])
   \<and> truthy_dict (Some [(''2024-01-01'', 0), (''2024-01-02'', 1900)])
   \<and> fst (get_gold_prices_historical zero_gold_state)
       = Inr (Some [(''2024-01-01'', 0), (''2024-01-02'', 1900)])
   \<and> calls (snd (get_gold_prices_historical zero_gold_state)) = [Cache_read]
   \<and> fst (load_cached_prices example_state) = Inr None \<and> \<not> truthy_dict None
   \<and> (\<forall>data. nbp_api example_state (days_to_show example_state) \<noteq> Response 200 (Payload data))
   \<and> yf_history example_state (clock example_state) (days_to_show example_state)
       = Yf_frame [(''2024-01-01'', 190), (''2024-01-02'', 191)]
   \<and> fst (get_gold_prices_historical example_state)
       = Inr (Some [(''2024-01-01'', 1900), (''2024-01-02'', 1910)])
   \<and> map_of (api_status (snd (get_gold_prices_historical example_state))) ''NBP'' = Some False
   \<and> map_of (api_status (snd (get_gold_prices_historical example_state))) ''YFinance''
       = Some True
   \<and> calls (snd (get_gold_prices_historical example_state))
       = [Cache_read, Nbp_get 7, Yf_get 7]"
proof -
  let ?cached = "Some [(''2024-01-01'', 0), (''2024-01-02'', 1900)] :: series option"
  let ?df = "[(''2024-01-01'', 190), (''2024-01-02'', 191)] :: (date \<times> real) list"
  have hit: "fst (load_cached_prices zero_gold_state) = Inr ?cached \<and> truthy_dict ?cached"
    by (simp add: load_cached_prices_eq cache_lookup_def datetime_fromtimestamp_def
        datetime_now_def round_us_def round_half_even_def zero_gold_state_def
        example_state_def truthy_dict_def)
  have h: "fst (load_cached_prices example_state) = Inr None \<and> \<not> truthy_dict None \<and>
      (\<forall>data. nbp_api example_state (days_to_show example_state) \<noteq> Response 200 (Payload data)) \<and>
      yf_history example_state (clock example_state) (days_to_show example_state) = Yf_frame ?df"
    by (simp add: load_cached_prices_eq cache_lookup_def example_state_def truthy_dict_def)
  note chain0 = gold_chain_order [of zero_gold_state]
  note chain1 = gold_chain_order [of example_state]
  from chain0 have "\<forall>cached.
        fst (load_cached_prices zero_gold_state) = Inr cached \<and> truthy_dict cached \<longrightarrow>
          get_gold_prices_historical zero_gold_state =
            (Inr cached,
             zero_gold_state\<lparr>calls := calls zero_gold_state @ [Cache_read],
               api_status := AList.update ''NBP'' True (api_status zero_gold_state),
               logged := logged zero_gold_state @ [Log_info ''NBP'' Success]\<rparr>)"
    by (elim conjE)
  then have "get_gold_prices_historical zero_gold_state =
            (Inr ?cached,
             zero_gold_state\<lparr>calls := calls zero_gold_state @ [Cache_read],
               api_status := AList.update ''NBP'' True (api_status zero_gold_state),
               logged := logged zero_gold_state @ [Log_info ''NBP'' Success]\<rparr>)"
    using hit by (elim allE [of _ ?cached] impE) assumption
  then have served: "fst (get_gold_prices_historical zero_gold_state) = Inr ?cached"
      "calls (snd (get_gold_prices_historical zero_gold_state)) = [Cache_read]"
    by (simp_all add: zero_gold_state_def example_state_def)
  from chain1 have "\<forall>cached df.
        fst (load_cached_prices example_state) = Inr cached \<and> \<not> truthy_dict cached \<and>
        (\<forall>data. nbp_api example_state (days_to_show example_state) \<noteq> Response 200 (Payload data)) \<and>
        yf_history example_state (clock example_state) (days_to_show example_state) = Yf_frame df \<longrightarrow>
          fst (get_gold_prices_historical example_state) = Inr (Some (yf_prices df)) \<and>
          fst (get_gold_prices_historical example_state) = fst (get_gold_prices_yfinance example_state) \<and>
          map_of (api_status (snd (get_gold_prices_historical example_state))) ''NBP'' = Some False \<and>
          map_of (api_status (snd (get_gold_prices_historical example_state))) ''YFinance'' = Some True \<and>
          calls (snd (get_gold_prices_historical example_state)) =
            calls example_state @ [Cache_read, Nbp_get (days_to_show example_state),
              Yf_get (days_to_show example_state)]"
    by (elim conjE)
  then have "fst (get_gold_prices_historical example_state) = Inr (Some (yf_prices ?df)) \<and>
          fst (get_gold_prices_historical example_state) = fst (get_gold_prices_yfinance example_state) \<and>
          map_of (api_status (snd (get_gold_prices_historical example_state))) ''NBP'' = Some False \<and>
          map_of (api_status (snd (get_gold_prices_historical example_state))) ''YFinance'' = Some True \<and>
          calls (snd (get_gold_prices_historical example_state)) =
            calls example_state @ [Cache_read, Nbp_get (days_to_show example_state),
              Yf_get (days_to_show example_state)]"
    using h by (elim allE [of _ None] allE [of _ ?df] impE) assumption
  moreover have "yf_prices ?df = [(''2024-01-01'', 1900), (''2024-01-02'', 1910)]"
    by (simp add: yf_prices_def)
  moreover have "calls example_state = []" "days_to_show example_state = 7"
    by (simp_all add: example_state_def)
  ultimately have fell: "fst (get_gold_prices_historical example_state)
       = Inr (Some [(''2024-01-01'', 1900), (''2024-01-02'', 1910)])"
      "map_of (api_status (snd (get_gold_prices_historical example_state))) ''NBP'' = Some False"
      "map_of (api_status (snd (get_gold_prices_historical example_state))) ''YFinance''
        = Some True"
      "calls (snd (get_gold_prices_historical example_state)) = [Cache_read, Nbp_get 7, Yf_get 7]"
    by simp_all
  show ?thesis
    using hit h served fell by (intro conjI) simp_all
qed

section \<open>The CoinGecko adapter\<close>

text \<open>
  C3. When CoinGecko answers 200 with a list of \<open>[timestamp, price]\<close> pairs,
  \<open>get_bitcoin_prices_historical\<close> returns a series with one entry per date, and the price
  of a date is the price of the first pair of the list whose timestamp falls on that date:
  later pairs of the same date are ignored.
\<close>

theorem bitcoin_keeps_first_observation:
  assumes "coingecko_api s (clock s) (days_to_show s) = Response 200 (Payload data)"
  shows "fst (get_bitcoin_prices_historical s) = Inr (Some (cg_prices (local_date s) data))
     \<and> distinct (map fst (cg_prices (local_date s) data))
     \<and> (\<forall>d. map_of (cg_prices (local_date s) data) d =
           map_option snd
             (find (\<lambda>(timestamp, price). local_date s (timestamp / 1000) = d) data))"
  using assms
  by (simp add: get_bitcoin_prices_historical_eq Let_def cg_prices_def cg_fold cg_fold_distinct)

theorem bitcoin_keeps_first_observation_witness:
  "coingecko_api example_state (clock example_state) (days_to_show example_state)
     = Response 200
         (Payload [(1704067200000, 40000), (1704110400000, 42000), (1704153600000, 44000)])
   \<and> local_date example_state (1704067200000 / 1000) = ''2024-01-01''
   \<and> local_date example_state (1704110400000 / 1000) = ''2024-01-01''
   \<and> (\<exists>prices. fst (get_bitcoin_prices_historical example_state) = Inr (Some prices) \<and>
         map_of prices ''2024-01-01'' = Some 40000 \<and>
         map_of prices ''2024-01-02'' = Some 44000)"
proof -
  let ?data = "[(1704067200000, 40000), (1704110400000, 42000), (1704153600000, 44000)]
      :: (real \<times> price) list"
  have h: "coingecko_api example_state (clock example_state) (days_to_show example_state)
      = Response 200 (Payload ?data)"
    by (simp add: example_state_def)
  have d: "local_date example_state (1704067200000 / 1000) = ''2024-01-01''"
      "local_date example_state (1704110400000 / 1000) = ''2024-01-01''"
      "local_date example_state (1704153600000 / 1000) = ''2024-01-02''"
    by (simp_all add: example_state_def)
  note first = bitcoin_keeps_first_observation [OF h]
  have "map_of (cg_prices (local_date example_state) ?data) ''2024-01-01'' = Some 40000"
    using first d by simp
  moreover have "map_of (cg_prices (local_date example_state) ?data) ''2024-01-02'' = Some 44000"
    using first d by simp
  ultimately show ?thesis
    using first h d by blast
qed



section \<open>The ratio table\<close>

text \<open>
  C5. \<open>calculate_ratio\<close> returns the Bitcoin price over the gold price in mode
  \<open>btc_gold\<close> and the gold price over the Bitcoin price otherwise, for prices that are not
  zero. Every row of the dataset carries the two prices its date has in the two series and
  their ratio in that orientation, and every selected date whose two prices are not zero
  has its row.
\<close>

theorem ratio_orientation:
  "(g \<noteq> 0 \<and> b \<noteq> 0 \<longrightarrow>
      calculate_ratio s g b = Inr (if ratio_mode s = ''btc_gold'' then b / g else g / b))
   \<and> (\<forall>r \<in> set (rows_shown gold btc s).
        map_of gold (Date r) = Some (Gold_Price_USD r) \<and>
        map_of btc (Date r) = Some (Bitcoin_Price_USD r) \<and>
        Ratio r = (if ratio_mode s = ''btc_gold'' then Bitcoin_Price_USD r / Gold_Price_USD r
                   else Gold_Price_USD r / Bitcoin_Price_USD r))
   \<and> (\<forall>d \<in> set (select_dates gold btc (days_to_show s)). \<forall>g b.
        map_of gold d = Some g \<and> map_of btc d = Some b \<and> g \<noteq> 0 \<and> b \<noteq> 0 \<longrightarrow>
          \<lparr>Date = d, Gold_Price_USD = g, Bitcoin_Price_USD = b,
           Ratio = (if ratio_mode s = ''btc_gold'' then b / g else g / b)\<rparr>
            \<in> set (rows_shown gold btc s))"
proof (intro conjI ballI allI impI)
  show "calculate_ratio s g b = Inr (if ratio_mode s = ''btc_gold'' then b / g else g / b)"
    if "g \<noteq> 0 \<and> b \<noteq> 0"
    using that by (simp add: calculate_ratio_def py_div_def)
next
  fix r
  assume "r \<in> set (rows_shown gold btc s)"
  from rows_shown_nonzero [OF this]
  show "map_of gold (Date r) = Some (Gold_Price_USD r)"
    and "map_of btc (Date r) = Some (Bitcoin_Price_USD r)"
    and "Ratio r = (if ratio_mode s = ''btc_gold'' then Bitcoin_Price_USD r / Gold_Price_USD r
                   else Gold_Price_USD r / Bitcoin_Price_USD r)"
    by simp_all
next
  fix d g b
  assume d: "d \<in> set (select_dates gold btc (days_to_show s))"
    and p: "map_of gold d = Some g \<and> map_of btc d = Some b \<and> g \<noteq> 0 \<and> b \<noteq> 0"
  from p have "priced gold btc d"
    by (simp add: priced_def truthy_float_def)
  moreover from p have "ratio_point (ratio_mode s) gold btc d =
      \<lparr>Date = d, Gold_Price_USD = g, Bitcoin_Price_USD = b,
       Ratio = (if ratio_mode s = ''btc_gold'' then b / g else g / b)\<rparr>"
    by (simp add: ratio_point_def)
  ultimately show "\<lparr>Date = d, Gold_Price_USD = g, Bitcoin_Price_USD = b,
       Ratio = (if ratio_mode s = ''btc_gold'' then b / g else g / b)\<rparr>
      \<in> set (rows_shown gold btc s)"
    using d by (force simp: rows_shown_eq)
qed

theorem ratio_orientation_witness:
  "rows_shown [(''2024-01-01'', 2000)] [(''2024-01-01'', 40000)] example_state
     = [\<lparr>Date = ''2024-01-01'', Gold_Price_USD = 2000, Bitcoin_Price_USD = 40000, Ratio = 20\<rparr>]
   \<and> rows_shown [(''2024-01-01'', 2000)] [(''2024-01-01'', 40000)]
       (example_state\<lparr>ratio_mode := ''gold_btc''\<rparr>)
     = [\<lparr>Date = ''2024-01-01'', Gold_Price_USD = 2000, Bitcoin_Price_USD = 40000,
         Ratio = 0.05\<rparr>]
   \<and> calculate_ratio example_state 2000 40000 = Inr 20
   \<and> calculate_ratio (example_state\<lparr>ratio_mode := ''gold_btc''\<rparr>) 2000 40000 = Inr 0.05"
proof (intro conjI)
  show "rows_shown [(''2024-01-01'', 2000)] [(''2024-01-01'', 40000)] example_state
     = [\<lparr>Date = ''2024-01-01'', Gold_Price_USD = 2000, Bitcoin_Price_USD = 40000, Ratio = 20\<rparr>]"
    by (simp add: rows_shown_eq example_state_def select_dates_def
        sorted_list_of_set_sort_remdups slice_from_def priced_def truthy_float_def
        ratio_point_def)
  show "rows_shown [(''2024-01-01'', 2000)] [(''2024-01-01'', 40000)]
       (example_state\<lparr>ratio_mode := ''gold_btc''\<rparr>)
     = [\<lparr>Date = ''2024-01-01'', Gold_Price_USD = 2000, Bitcoin_Price_USD = 40000,
         Ratio = 0.05\<rparr>]"
    by (simp add: rows_shown_eq example_state_def select_dates_def
        sorted_list_of_set_sort_remdups slice_from_def priced_def truthy_float_def
        ratio_point_def)
  show "calculate_ratio example_state 2000 40000 = Inr 20"
    using ratio_orientation [of 2000 40000 example_state] by (simp add: example_state_def)
  show "calculate_ratio (example_state\<lparr>ratio_mode := ''gold_btc''\<rparr>) 2000 40000 = Inr 0.05"
    using ratio_orientation [of 2000 40000 "example_state\<lparr>ratio_mode := ''gold_btc''\<rparr>"]
    by (simp add: example_state_def)
qed

text \<open>
  C4. For a positive day count and two price series (all prices above zero, as the data
  model has them), the dates of the dataset are the dates common to the two series, in
  ascending order, cut to the last \<open>limit\<close> of them: they are \<open>spec_dates\<close>, the selection
  in the words of the specification, whatever the insertion order of the two series.
\<close>

theorem ratio_dates:
  assumes "0 < days_to_show s"
    and "\<forall>p \<in> snd ` (set gold \<union> set btc). 0 < p"
  shows "map Date (rows_shown gold btc s) = spec_dates gold btc (nat (days_to_show s))
     \<and> set (map Date (rows_shown gold btc s)) \<subseteq> fst ` set gold \<inter> fst ` set btc
     \<and> (card (fst ` set gold \<inter> fst ` set btc) \<le> nat (days_to_show s) \<longrightarrow>
          set (map Date (rows_shown gold btc s)) = fst ` set gold \<inter> fst ` set btc)
     \<and> sorted (map Date (rows_shown gold btc s))
     \<and> distinct (map Date (rows_shown gold btc s))
     \<and> length (rows_shown gold btc s) =
          min (nat (days_to_show s)) (card (fst ` set gold \<inter> fst ` set btc))"
proof -
  let ?dates = "spec_dates gold btc (nat (days_to_show s))"
  let ?common = "sorted_list_of_set (set (map fst gold) \<inter> set (map fst btc))"
  have rows: "map Date (rows_shown gold btc s) = filter (priced gold btc) ?dates"
    using assms(1) by (simp add: rows_shown_eq select_dates_spec comp_def)
  have "priced gold btc d" if "d \<in> set ?dates" for d
  proof -
    from that set_spec_dates [of gold btc "nat (days_to_show s)"]
    have d: "d \<in> fst ` set gold" "d \<in> fst ` set btc"
      by auto
    have "map_of gold d \<noteq> Some 0 \<and> map_of btc d \<noteq> Some 0"
      using assms(2) by (force dest: map_of_SomeD)
    then show ?thesis
      by (simp add: priced_iff [OF d])
  qed
  then have "filter (priced gold btc) ?dates = ?dates"
    by simp
  with rows have eq: "map Date (rows_shown gold btc s) = ?dates"
    by simp
  have len_common: "length ?common = card (fst ` set gold \<inter> fst ` set btc)"
    by simp
  have sd: "sorted ?dates \<and> distinct ?dates"
    by (simp add: spec_dates_def Let_def)
  have len: "length ?dates = min (nat (days_to_show s)) (card (fst ` set gold \<inter> fst ` set btc))"
    unfolding spec_dates_def Let_def length_drop len_common by simp
  have all: "set ?dates = fst ` set gold \<inter> fst ` set btc"
    if "card (fst ` set gold \<inter> fst ` set btc) \<le> nat (days_to_show s)"
  proof -
    have "length ?common - nat (days_to_show s) = 0"
      using that len_common by simp
    then have "?dates = ?common"
      by (simp add: spec_dates_def Let_def)
    then show ?thesis
      by simp
  qed
  have "length (rows_shown gold btc s) = length (map Date (rows_shown gold btc s))"
    by simp
  with eq sd len all set_spec_dates [of gold btc "nat (days_to_show s)"] show ?thesis
    by (simp del: length_map)
qed

theorem ratio_dates_witness:
  "0 < days_to_show (example_state\<lparr>days_to_show := 3\<rparr>)
   \<and> map Date (rows_shown [(''d3'', 3), (''d1'', 1), (''d2'', 2)]
        [(''d4'', 4), (''d3'', 3), (''d2'', 2)] (example_state\<lparr>days_to_show := 3\<rparr>))
     = [''d2'', ''d3'']
   \<and> map Date (rows_shown
        [(''d07'', 7), (''d02'', 2), (''d10'', 10), (''d01'', 1), (''d05'', 5), (''d03'', 3),
         (''d09'', 9), (''d04'', 4), (''d08'', 8), (''d06'', 6)]
        [(''d01'', 1), (''d02'', 2), (''d03'', 3), (''d04'', 4), (''d05'', 5), (''d06'', 6),
         (''d07'', 7), (''d08'', 8), (''d09'', 9), (''d10'', 10)]
        (example_state\<lparr>days_to_show := 3\<rparr>))
     = [''d08'', ''d09'', ''d10'']"
proof -
  let ?s = "example_state\<lparr>days_to_show := 3\<rparr>"
  let ?G1 = "[(''d3'', 3), (''d1'', 1), (''d2'', 2)] :: series"
  let ?B1 = "[(''d4'', 4), (''d3'', 3), (''d2'', 2)] :: series"
  let ?G2 = "[(''d07'', 7), (''d02'', 2), (''d10'', 10), (''d01'', 1), (''d05'', 5),
      (''d03'', 3), (''d09'', 9), (''d04'', 4), (''d08'', 8), (''d06'', 6)] :: series"
  let ?B2 = "[(''d01'', 1), (''d02'', 2), (''d03'', 3), (''d04'', 4), (''d05'', 5),
      (''d06'', 6), (''d07'', 7), (''d08'', 8), (''d09'', 9), (''d10'', 10)] :: series"
  have pos: "0 < days_to_show ?s"
    by (simp add: example_state_def)
  have n: "nat (days_to_show ?s) = 3"
    by (simp add: example_state_def)
  have p1: "\<forall>p \<in> snd ` (set ?G1 \<union> set ?B1). 0 < p"
    by simp
  have p2: "\<forall>p \<in> snd ` (set ?G2 \<union> set ?B2). 0 < p"
    by simp
  have a: "spec_dates ?G1 ?B1 3 = [''d2'', ''d3'']"
    by (simp add: spec_dates_def sorted_list_of_set_sort_remdups)
  have b: "spec_dates ?G2 ?B2 3 = [''d08'', ''d09'', ''d10'']"
    by (simp add: spec_dates_def sorted_list_of_set_sort_remdups)
  have one: "map Date (rows_shown ?G1 ?B1 ?s) = [''d2'', ''d3'']"
    using ratio_dates [OF pos p1, THEN conjunct1] by (simp only: n a)
  have two: "map Date (rows_shown ?G2 ?B2 ?s) = [''d08'', ''d09'', ''d10'']"
    using ratio_dates [OF pos p2, THEN conjunct1] by (simp only: n b)
  show ?thesis
    by (intro conjI pos one two)
qed

text \<open>
  C8. The dataset is a function of the two series, the mode and the day count alone: two
  states that agree on the mode and the day count, whatever their clocks, caches, statuses,
  logs and earlier tables, produce the same rows in the same order; so does the state that
  the computation itself leaves behind; and so do two series that hold the same prices
  under the same dates in another insertion order.
\<close>

theorem ratio_rows_deterministic:
  assumes "ratio_mode s1 = ratio_mode s2" and "days_to_show s1 = days_to_show s2"
  shows "rows_shown gold btc s1 = rows_shown gold btc s2
     \<and> rows_shown gold btc (snd (show_prices (Some gold) (Some btc) s1)) = rows_shown gold btc s1
     \<and> (map_of gold' = map_of gold \<and> map_of btc' = map_of btc \<longrightarrow>
          rows_shown gold' btc' s1 = rows_shown gold btc s2)"
proof (intro conjI impI)
  show "rows_shown gold btc s1 = rows_shown gold btc s2"
    using assms by (simp add: rows_shown_eq)
  show "rows_shown gold' btc' s1 = rows_shown gold btc s2"
    if "map_of gold' = map_of gold \<and> map_of btc' = map_of btc"
    using that assms by (intro rows_shown_cong) simp_all
  have "ratio_mode (snd (show_prices (Some gold) (Some btc) s1)) = ratio_mode s1 \<and>
      days_to_show (snd (show_prices (Some gold) (Some btc) s1)) = days_to_show s1"
  proof (cases "gold = [] \<or> btc = []")
    case True
    then have "\<not> (truthy_dict (Some gold) \<and> truthy_dict (Some btc))"
      by (auto simp: truthy_dict_def)
    then show ?thesis
      by (simp add: show_prices_absent)
  next
    case False
    then show ?thesis
      by (simp add: show_prices_present Let_def)
  qed
  then show "rows_shown gold btc (snd (show_prices (Some gold) (Some btc) s1))
      = rows_shown gold btc s1"
    by (simp add: rows_shown_eq)
qed

theorem ratio_rows_deterministic_witness:
  "ratio_mode example_state = ratio_mode stale_state
   \<and> days_to_show example_state = days_to_show stale_state
   \<and> clock example_state \<noteq> clock stale_state
   \<and> current_data example_state \<noteq> current_data stale_state
   \<and> rows_shown [(''2024-01-01'', 2000), (''2024-01-02'', 1900)]
        [(''2024-01-02'', 44000), (''2024-01-01'', 40000)] example_state
     = rows_shown [(''2024-01-01'', 2000), (''2024-01-02'', 1900)]
        [(''2024-01-02'', 44000), (''2024-01-01'', 40000)] stale_state
   \<and> rows_shown [(''2024-01-02'', 1900), (''2024-01-01'', 2000)]
        [(''2024-01-01'', 40000), (''2024-01-02'', 44000)] example_state
     = rows_shown [(''2024-01-01'', 2000), (''2024-01-02'', 1900)]
        [(''2024-01-02'', 44000), (''2024-01-01'', 40000)] stale_state"
proof -
  let ?G = "[(''2024-01-01'', 2000), (''2024-01-02'', 1900)] :: series"
  let ?B = "[(''2024-01-02'', 44000), (''2024-01-01'', 40000)] :: series"
  let ?G' = "[(''2024-01-02'', 1900), (''2024-01-01'', 2000)] :: series"
  let ?B' = "[(''2024-01-01'', 40000), (''2024-01-02'', 44000)] :: series"
  have m: "ratio_mode example_state = ratio_mode stale_state"
    and d: "days_to_show example_state = days_to_show stale_state"
    by (simp_all add: stale_state_def example_state_def)
  have other: "clock example_state \<noteq> clock stale_state"
      "current_data example_state \<noteq> current_data stale_state"
    by (simp_all add: stale_state_def example_state_def)
  have g: "map_of ?G' = map_of ?G"
    by (rule ext) simp
  have b: "map_of ?B' = map_of ?B"
    by (rule ext) simp
  note det = ratio_rows_deterministic [OF m d, of ?G ?B ?G' ?B']
  have one: "rows_shown ?G ?B example_state = rows_shown ?G ?B stale_state"
    using det by (rule conjunct1)
  have "map_of ?G' = map_of ?G \<and> map_of ?B' = map_of ?B \<longrightarrow>
      rows_shown ?G' ?B' example_state = rows_shown ?G ?B stale_state"
    using det by (elim conjE)
  then have two: "rows_shown ?G' ?B' example_state = rows_shown ?G ?B stale_state"
    using g b by (elim impE) (intro conjI)
  show ?thesis
    by (intro conjI m d other one two)
qed

section \<open>Failed and degenerate refreshes\<close>

text \<open>
  C9. \<open>refresh_data\<close> tests the two fetched series by their truth value, so an empty series
  is handled as an absent one: in both cases the label is set to the error text, the dialog
  "Failed to fetch price data" is shown and no row is added. In particular, when the cache
  misses, NBP fails and yfinance returns an empty frame, the YFinance status is \<open>True\<close>
  and the refresh ends with that dialog and an empty table.
\<close>

theorem empty_series_counts_as_absent:
  "show_prices (Some []) btc s = show_prices None btc s
   \<and> show_prices gold (Some []) s = show_prices gold None s
   \<and> show_prices None btc s =
        (Inr (), s\<lparr>refresh_label := Error_fetching,
                   messagebox := messagebox s @ [(''Error'', ''Failed to fetch price data'')]\<rparr>)
   \<and> show_prices gold None s =
        (Inr (), s\<lparr>refresh_label := Error_fetching,
                   messagebox := messagebox s @ [(''Error'', ''Failed to fetch price data'')]\<rparr>)
   \<and> (\<forall>cached.
        0 < days_to_show s \<and>
        fst (load_cached_prices s) = Inr cached \<and> \<not> truthy_dict cached \<and>
        (\<forall>data. nbp_api s (days_to_show s) \<noteq> Response 200 (Payload data)) \<and>
        yf_history s (clock s) (days_to_show s) = Yf_frame [] \<longrightarrow>
          fst (refresh_data s) = Inr () \<and>
          current_data (snd (refresh_data s)) = [] \<and>
          tree (snd (refresh_data s)) = [] \<and>
          refresh_label (snd (refresh_data s)) = Error_fetching \<and>
          messagebox (snd (refresh_data s)) =
            messagebox s @ [(''Error'', ''Failed to fetch price data'')] \<and>
          map_of (api_status (snd (refresh_data s))) ''YFinance'' = Some True)"
proof -
  have absent: "show_prices g b s =
        (Inr (), s\<lparr>refresh_label := Error_fetching,
                   messagebox := messagebox s @ [(''Error'', ''Failed to fetch price data'')]\<rparr>)"
    if "g = None \<or> g = Some [] \<or> b = None \<or> b = Some []" for g b s
    using that by (intro show_prices_absent) (auto simp: truthy_dict_def)
  have run: "fst (refresh_data s) = Inr () \<and>
          current_data (snd (refresh_data s)) = [] \<and>
          tree (snd (refresh_data s)) = [] \<and>
          refresh_label (snd (refresh_data s)) = Error_fetching \<and>
          messagebox (snd (refresh_data s)) =
            messagebox s @ [(''Error'', ''Failed to fetch price data'')] \<and>
          map_of (api_status (snd (refresh_data s))) ''YFinance'' = Some True"
    if h: "0 < days_to_show s \<and>
        fst (load_cached_prices s) = Inr cached \<and> \<not> truthy_dict cached \<and>
        (\<forall>data. nbp_api s (days_to_show s) \<noteq> Response 200 (Payload data)) \<and>
        yf_history s (clock s) (days_to_show s) = Yf_frame []" for cached
  proof -
    let ?s1 = "s\<lparr>tree := [], current_data := [], ratio_heading := get_ratio_column_name s\<rparr>"
    define s2 where "s2 =
      ?s1\<lparr>calls := calls s @ [Cache_read, Nbp_get (days_to_show s), Yf_get (days_to_show s)],
        api_status := AList.update ''YFinance'' True (AList.update ''NBP'' False (api_status s)),
        logged := logged s @ nbp_failure ?s1 @ [Log_info ''YFinance'' Success]\<rparr>"
    have "cache_lookup ?s1 = cache_lookup s"
      by (rule cache_lookup_cong) simp_all
    then have "fst (load_cached_prices ?s1) = fst (load_cached_prices s)"
      by (simp add: load_cached_prices_eq)
    then have c: "fst (load_cached_prices ?s1) = Inr cached"
      using h by simp
    have miss: "\<not> truthy_dict cached"
      using h by simp
    have n: "\<forall>data. nbp_api ?s1 (days_to_show ?s1) \<noteq> Response 200 (Payload data)"
      using h by simp
    have yf: "yf_history s (clock s) (days_to_show s) = Yf_frame []"
      using h by simp
    have g: "get_gold_prices_historical ?s1 = (Inr (Some []), s2)"
      by (simp add: gold_primary_fails [OF c miss n] get_gold_prices_yfinance_eq yf
          yf_prices_def s2_def)
    have s2: "current_data s2 = []" "tree s2 = []" "messagebox s2 = messagebox s"
        "map_of (api_status s2) ''YFinance'' = Some True"
      by (simp_all add: s2_def update_conv')
    obtain b s3 v where b: "get_bitcoin_prices_historical s2 = (Inr b, s3)"
        "fetch_frame s2 s3"
        "api_status s3 = AList.update ''CoinGecko'' v (api_status s2)"
      using bitcoin_total [of s2] by blast
    have r: "refresh_data s = show_prices (Some []) b s3"
      using h g b(1) by (simp add: refresh_data_def then_do_def Let_def)
    have f: "current_data s3 = []" "tree s3 = []" "messagebox s3 = messagebox s"
      using b(2) s2 by (simp_all add: fetch_frame_def)
    have st: "map_of (api_status s3) ''YFinance'' = Some True"
      using s2(4) by (simp add: b(3) update_conv')
    have "show_prices (Some []) b s3 =
        (Inr (), s3\<lparr>refresh_label := Error_fetching,
           messagebox := messagebox s3 @ [(''Error'', ''Failed to fetch price data'')]\<rparr>)"
      by (rule absent) simp
    then show ?thesis
      by (simp add: r f st)
  qed
  have last: "\<forall>cached.
        0 < days_to_show s \<and>
        fst (load_cached_prices s) = Inr cached \<and> \<not> truthy_dict cached \<and>
        (\<forall>data. nbp_api s (days_to_show s) \<noteq> Response 200 (Payload data)) \<and>
        yf_history s (clock s) (days_to_show s) = Yf_frame [] \<longrightarrow>
          fst (refresh_data s) = Inr () \<and>
          current_data (snd (refresh_data s)) = [] \<and>
          tree (snd (refresh_data s)) = [] \<and>
          refresh_label (snd (refresh_data s)) = Error_fetching \<and>
          messagebox (snd (refresh_data s)) =
            messagebox s @ [(''Error'', ''Failed to fetch price data'')] \<and>
          map_of (api_status (snd (refresh_data s))) ''YFinance'' = Some True"
  proof (intro allI impI)
    fix cached
    assume "0 < days_to_show s \<and>
        fst (load_cached_prices s) = Inr cached \<and> \<not> truthy_dict cached \<and>
        (\<forall>data. nbp_api s (days_to_show s) \<noteq> Response 200 (Payload data)) \<and>
        yf_history s (clock s) (days_to_show s) = Yf_frame []"
    then show "fst (refresh_data s) = Inr () \<and>
          current_data (snd (refresh_data s)) = [] \<and>
          tree (snd (refresh_data s)) = [] \<and>
          refresh_label (snd (refresh_data s)) = Error_fetching \<and>
          messagebox (snd (refresh_data s)) =
            messagebox s @ [(''Error'', ''Failed to fetch price data'')] \<and>
          map_of (api_status (snd (refresh_data s))) ''YFinance'' = Some True"
      by (rule run)
  qed
  have a1: "show_prices (Some []) btc s = show_prices None btc s"
    by (simp add: absent [of "Some []" btc s] absent [of None btc s])
  have a2: "show_prices gold (Some []) s = show_prices gold None s"
    by (simp add: absent [of gold "Some []" s] absent [of gold None s])
  have a3: "show_prices None btc s =
        (Inr (), s\<lparr>refresh_label := Error_fetching,
                   messagebox := messagebox s @ [(''Error'', ''Failed to fetch price data'')]\<rparr>)"
    by (rule absent) simp
  have a4: "show_prices gold None s =
        (Inr (), s\<lparr>refresh_label := Error_fetching,
                   messagebox := messagebox s @ [(''Error'', ''Failed to fetch price data'')]\<rparr>)"
    by (rule absent) simp
  show ?thesis
    by (intro conjI a1 a2 a3 a4 last)
qed

theorem empty_series_counts_as_absent_witness:
  "0 < days_to_show (example_state\<lparr>yf_history := (\<lambda>_ _. Yf_frame [])\<rparr>)
   \<and> fst (get_gold_prices_historical (example_state\<lparr>yf_history := (\<lambda>_ _. Yf_frame [])\<rparr>))
       = Inr (Some [])
   \<and> current_data (snd (refresh_data (example_state\<lparr>yf_history := (\<lambda>_ _. Yf_frame [])\<rparr>))) = []
   \<and> messagebox (snd (refresh_data (example_state\<lparr>yf_history := (\<lambda>_ _. Yf_frame [])\<rparr>)))
       = [(''Error'', ''Failed to fetch price data'')]
   \<and> map_of (api_status (snd (refresh_data (example_state\<lparr>yf_history := (\<lambda>_ _. Yf_frame [])\<rparr>))))
        ''YFinance'' = Some True"
proof -
  define s where "s = example_state\<lparr>yf_history := (\<lambda>_ _. Yf_frame [])\<rparr>"
  have h: "0 < days_to_show s \<and>
      fst (load_cached_prices s) = Inr None \<and> \<not> truthy_dict None \<and>
      (\<forall>data. nbp_api s (days_to_show s) \<noteq> Response 200 (Payload data)) \<and>
      yf_history s (clock s) (days_to_show s) = Yf_frame []"
    by (simp add: s_def load_cached_prices_eq cache_lookup_def example_state_def truthy_dict_def)
  have g: "fst (get_gold_prices_historical s) = Inr (Some [])"
    using h by (simp add: gold_primary_fails [of s None] get_gold_prices_yfinance_eq
        yf_prices_def)
  have m: "messagebox s = []"
    by (simp add: s_def example_state_def)
  have pos: "0 < days_to_show s"
    using h by simp
  note all = empty_series_counts_as_absent [where s = s and gold = None and btc = None]
  from all have "\<forall>cached.
        0 < days_to_show s \<and>
        fst (load_cached_prices s) = Inr cached \<and> \<not> truthy_dict cached \<and>
        (\<forall>data. nbp_api s (days_to_show s) \<noteq> Response 200 (Payload data)) \<and>
        yf_history s (clock s) (days_to_show s) = Yf_frame [] \<longrightarrow>
          fst (refresh_data s) = Inr () \<and>
          current_data (snd (refresh_data s)) = [] \<and>
          tree (snd (refresh_data s)) = [] \<and>
          refresh_label (snd (refresh_data s)) = Error_fetching \<and>
          messagebox (snd (refresh_data s)) =
            messagebox s @ [(''Error'', ''Failed to fetch price data'')] \<and>
          map_of (api_status (snd (refresh_data s))) ''YFinance'' = Some True"
    by (elim conjE)
  then have "fst (refresh_data s) = Inr () \<and>
          current_data (snd (refresh_data s)) = [] \<and>
          tree (snd (refresh_data s)) = [] \<and>
          refresh_label (snd (refresh_data s)) = Error_fetching \<and>
          messagebox (snd (refresh_data s)) =
            messagebox s @ [(''Error'', ''Failed to fetch price data'')] \<and>
          map_of (api_status (snd (refresh_data s))) ''YFinance'' = Some True"
    using h by (elim allE [of _ None] impE) assumption
  then have "0 < days_to_show s
   \<and> fst (get_gold_prices_historical s) = Inr (Some [])
   \<and> current_data (snd (refresh_data s)) = []
   \<and> messagebox (snd (refresh_data s)) = [(''Error'', ''Failed to fetch price data'')]
   \<and> map_of (api_status (snd (refresh_data s))) ''YFinance'' = Some True"
    using pos g m by simp
  then show ?thesis
    unfolding s_def .
qed

text \<open>
  C10. A selected date whose gold price or Bitcoin price is zero adds no row and changes
  nothing, and every row of the dataset has two prices that are not zero, so
  \<open>calculate_ratio\<close> is never called with a zero divisor: \<open>refresh_data\<close> and the loop
  over the dates return normally from every state and for all series.
\<close>

theorem zero_prices_are_skipped:
  "fst (refresh_data s) = Inr ()
   \<and> fst (show_prices gold_prices bitcoin_prices s) = Inr ()
   \<and> fst (refresh_rows gold btc dates s) = Inr ()
   \<and> (map_of gold d = Some 0 \<or> map_of btc d = Some 0 \<longrightarrow>
        refresh_row gold btc d s = (Inr (), s) \<and> d \<notin> Date ` set (rows_shown gold btc s))
   \<and> (\<forall>r \<in> set (rows_shown gold btc s). Gold_Price_USD r \<noteq> 0 \<and> Bitcoin_Price_USD r \<noteq> 0)"
proof (intro conjI impI ballI)
  show "fst (refresh_data s) = Inr ()"
    by (rule refresh_data_total)
  show "fst (show_prices gold_prices bitcoin_prices s) = Inr ()"
    by (rule show_prices_total)
  show "fst (refresh_rows gold btc dates s) = Inr ()"
    by (simp add: refresh_rows_eq)
next
  assume z: "map_of gold d = Some 0 \<or> map_of btc d = Some 0"
  then have "\<not> priced gold btc d"
    by (auto simp: priced_def truthy_float_def)
  then show "refresh_row gold btc d s = (Inr (), s)"
    by (simp add: refresh_row_eq)
  show "d \<notin> Date ` set (rows_shown gold btc s)"
  proof
    assume "d \<in> Date ` set (rows_shown gold btc s)"
    then obtain r where "r \<in> set (rows_shown gold btc s)" "Date r = d"
      by auto
    with rows_shown_nonzero [of r gold btc s] z show False
      by auto
  qed
next
  fix r
  assume "r \<in> set (rows_shown gold btc s)"
  from rows_shown_nonzero [OF this]
  show "Gold_Price_USD r \<noteq> 0" and "Bitcoin_Price_USD r \<noteq> 0"
    by simp_all
qed

theorem zero_prices_are_skipped_witness:
  "map_of [(''2024-01-01'', 0), (''2024-01-02'', 1900 :: real)] ''2024-01-01'' = Some 0
   \<and> calculate_ratio zero_gold_state 0 40000 = Inl ZeroDivisionError
   \<and> fst (refresh_data zero_gold_state) = Inr ()
   \<and> ''2024-01-01'' \<notin> Date ` set (rows_shown [(''2024-01-01'', 0), (''2024-01-02'', 1900)]
        [(''2024-01-01'', 40000), (''2024-01-02'', 44000)] zero_gold_state)
   \<and> rows_shown [(''2024-01-01'', 0), (''2024-01-02'', 1900)]
        [(''2024-01-01'', 40000), (''2024-01-02'', 44000)] zero_gold_state
      = [\<lparr>Date = ''2024-01-02'', Gold_Price_USD = 1900, Bitcoin_Price_USD = 44000,
          Ratio = 44000 / 1900\<rparr>]"
proof -
  let ?G = "[(''2024-01-01'', 0), (''2024-01-02'', 1900)] :: series"
  let ?B = "[(''2024-01-01'', 40000), (''2024-01-02'', 44000)] :: series"
  have z: "map_of ?G ''2024-01-01'' = Some 0"
    by simp
  have raises: "calculate_ratio zero_gold_state 0 40000 = Inl ZeroDivisionError"
    by (simp add: calculate_ratio_def py_div_def zero_gold_state_def example_state_def)
  have rows: "rows_shown ?G ?B zero_gold_state =
      [\<lparr>Date = ''2024-01-02'', Gold_Price_USD = 1900, Bitcoin_Price_USD = 44000,
        Ratio = 44000 / 1900\<rparr>]"
    by (simp add: rows_shown_eq zero_gold_state_def example_state_def select_dates_def
        sorted_list_of_set_sort_remdups slice_from_def priced_def truthy_float_def
        ratio_point_def)
  note skip = zero_prices_are_skipped [where s = zero_gold_state and gold = ?G and btc = ?B
      and d = "''2024-01-01''" and gold_prices = None and bitcoin_prices = None and dates = "[]"]
  have total: "fst (refresh_data zero_gold_state) = Inr ()"
    using skip by (rule conjunct1)
  have "map_of ?G ''2024-01-01'' = Some 0 \<or> map_of ?B ''2024-01-01'' = Some 0 \<longrightarrow>
      refresh_row ?G ?B ''2024-01-01'' zero_gold_state = (Inr (), zero_gold_state) \<and>
      ''2024-01-01'' \<notin> Date ` set (rows_shown ?G ?B zero_gold_state)"
    using skip by (elim conjE)
  then have out: "''2024-01-01'' \<notin> Date ` set (rows_shown ?G ?B zero_gold_state)"
    using z by (elim impE conjE) (rule disjI1)
  show ?thesis
    by (intro conjI z raises total out rows)
qed

end
